theory Spec2Isabelle
  imports Complex_Main "HOL-Library.Char_ord" "HOL-Library.List_Lexorder"
begin

text \<open>
  lazyrepo is a caching task runner for monorepos.  This theory models the part of it that
  decides whether a task runs again: the configuration getters of config.js, the manifest
  computation of computeManifest.js, and the \<^verbatim>\<open>run\<close> command; the manifest builder and the
  scheduler follow the specification and the integration tests, since their sources are
  missing.
\<close>

section \<open>Library functions the program calls\<close>

text \<open>
  The functions of Node's \<^verbatim>\<open>path\<close> module, of the \<^verbatim>\<open>slugify\<close> package, the
  conversion \<^verbatim>\<open>String(number)\<close> and the two hash functions of \<^verbatim>\<open>hash.js\<close> are
  parameters of the model: every definition below that calls one of them takes the record of
  them as its first argument.  \<open>hashString\<close> is the function on strings; what it does with
  an argument that is not a string is the parameter \<open>hashInherited\<close>, which takes the name of
  the member of \<^verbatim>\<open>Object.prototype\<close> that it is passed and gives the error thrown or the
  hash returned.  Strings are compared with the lexicographic order on character codes, which
  is the order of JavaScript's default \<^verbatim>\<open>sort()\<close>.
\<close>

text \<open>What the program throws.\<close>

datatype error =
    MissingTask string
  | MissingInputManifestCacheKey string
  | TaskDirNotAbsolute string
  | TypeError
  | ENOENT string
  | InvalidConfigFile
  | InvalidManifestOrder

record lib =
  path_join :: "string \<Rightarrow> string \<Rightarrow> string"
  path_dirname :: "string \<Rightarrow> string"
  path_relative :: "string \<Rightarrow> string \<Rightarrow> string"
  path_isAbsolute :: "string \<Rightarrow> bool"
  slugify :: "string \<Rightarrow> string"
  js_String :: "real \<Rightarrow> string"
  hashString :: "string \<Rightarrow> string"
  hashFile :: "string \<Rightarrow> nat \<Rightarrow> string"
  hashInherited :: "string \<Rightarrow> error + string"

section \<open>Configuration (config.js)\<close>

datatype run_type = Dependent | Independent | TopLevel

datatype glob_config = GlobArray "string list" | GlobObject "string list option" "string list option"

record glob_pattern =
  gp_include :: "string list"
  gp_exclude :: "string list"

record runs_after_config =
  inheritsInput :: "bool option"
  usesOutput :: "bool option"

record cache_config =
  cc_envInputs :: "string list option"
  cc_inheritsInputFromDependencies :: "bool option"
  cc_inputs :: "glob_config option"
  cc_outputs :: "glob_config option"
  cc_usesOutputFromDependencies :: "bool option"

datatype cache_setting = ConfigNone | ConfigCache cache_config

text \<open>A task as the configuration file declares it; every field may be missing.  The
  \<^verbatim>\<open>runsAfter\<close> object is an association list in the order of \<^verbatim>\<open>Object.entries\<close>.\<close>

record LazyTask =
  lt_runType :: "run_type option"
  lt_baseCommand :: "string option"
  lt_runsAfter :: "(string \<times> runs_after_config) list option"
  lt_parallel :: "bool option"
  lt_cache :: "cache_setting option"

record resolved_cache =
  envInputs :: "string list"
  inheritsInputFromDependencies :: bool
  inputs :: glob_pattern
  outputs :: glob_pattern
  usesOutputFromDependencies :: bool

datatype cache_value = CacheNone | Cache resolved_cache

record TaskConfig =
  tc_dir :: string
  tc_name :: string
  tc_config :: LazyTask

record BaseCacheConfig =
  bc_includes :: "string list option"
  bc_excludes :: "string list option"
  bc_envInputs :: "string list option"

record LazyConfig =
  baseCacheConfig :: "BaseCacheConfig option"
  lc_tasks :: "(string \<rightharpoonup> LazyTask) option"

record LoadedConfig =
  ld_config :: LazyConfig
  filePath :: "string option"

record PackageDetails =
  pkg_name :: string
  pkg_dir :: string
  localDeps :: "string list option"

record RepoDetails =
  packagesByName :: "(string \<times> PackageDetails) list"

record Config =
  rootConfig :: LoadedConfig
  packageDirConfigs :: "string \<rightharpoonup> LoadedConfig"
  workspaceRoot :: string
  repoDetails :: RepoDetails

definition emptyTask :: LazyTask where
  "emptyTask = \<lparr>lt_runType = None, lt_baseCommand = None, lt_runsAfter = None,
     lt_parallel = None, lt_cache = None\<rparr>"

definition emptyConfig :: LazyConfig where
  "emptyConfig = \<lparr>baseCacheConfig = None, lc_tasks = None\<rparr>"

definition getManifestPath :: "lib \<Rightarrow> TaskConfig \<Rightarrow> string" where
  "getManifestPath L tc =
     (let dir = path_join L (path_join L (tc_dir tc) ''.lazy'') ''manifests''
      in path_join L dir (slugify L (tc_name tc)))"

definition getNextManifestPath :: "lib \<Rightarrow> TaskConfig \<Rightarrow> string" where
  "getNextManifestPath L tc =
     (let dir = path_join L (path_join L (tc_dir tc) ''.lazy'') ''manifests''
      in path_join L dir (slugify L (tc_name tc) @ ''.next''))"

definition getDiffPath :: "lib \<Rightarrow> TaskConfig \<Rightarrow> string" where
  "getDiffPath L tc =
     (let dir = path_join L (path_join L (tc_dir tc) ''.lazy'') ''diffs''
      in path_join L dir (slugify L (tc_name tc)))"

definition runType :: "TaskConfig \<Rightarrow> run_type" where
  "runType tc = (case lt_runType (tc_config tc) of None \<Rightarrow> Dependent | Some r \<Rightarrow> r)"

definition runsAfter :: "TaskConfig \<Rightarrow> (string \<times> runs_after_config) list" where
  "runsAfter tc = (case lt_runsAfter (tc_config tc) of None \<Rightarrow> [] | Some r \<Rightarrow> r)"

definition parallel :: "TaskConfig \<Rightarrow> bool" where
  "parallel tc = (case lt_parallel (tc_config tc) of None \<Rightarrow> True | Some p \<Rightarrow> p)"

definition extractGlobPattern :: "glob_config option \<Rightarrow> glob_pattern" where
  "extractGlobPattern g =
     (case g of
        None \<Rightarrow> \<lparr>gp_include = [''**/*''], gp_exclude = []\<rparr>
      | Some (GlobArray xs) \<Rightarrow> \<lparr>gp_include = xs, gp_exclude = []\<rparr>
      | Some (GlobObject inc exc) \<Rightarrow>
          \<lparr>gp_include = (case inc of None \<Rightarrow> [''**/*''] | Some i \<Rightarrow> i),
           gp_exclude = (case exc of None \<Rightarrow> [] | Some e \<Rightarrow> e)\<rparr>)"

definition resolveCache :: "cache_config option \<Rightarrow> resolved_cache" where
  "resolveCache c =
     \<lparr>envInputs = (case Option.bind c cc_envInputs of None \<Rightarrow> [] | Some e \<Rightarrow> e),
      inheritsInputFromDependencies =
        (case Option.bind c cc_inheritsInputFromDependencies of None \<Rightarrow> True | Some b \<Rightarrow> b),
      inputs = extractGlobPattern (Option.bind c cc_inputs),
      outputs = extractGlobPattern (Option.bind c cc_outputs),
      usesOutputFromDependencies =
        (case Option.bind c cc_usesOutputFromDependencies of None \<Rightarrow> True | Some b \<Rightarrow> b)\<rparr>"

definition cache :: "TaskConfig \<Rightarrow> cache_value" where
  "cache tc =
     (case lt_cache (tc_config tc) of
        Some ConfigNone \<Rightarrow> CacheNone
      | Some (ConfigCache c) \<Rightarrow> Cache (resolveCache (Some c))
      | None \<Rightarrow> Cache (resolveCache None))"

definition getTaskConfig :: "Config \<Rightarrow> string \<Rightarrow> string \<Rightarrow> TaskConfig" where
  "getTaskConfig cfg taskDir taskName =
     (let config = (case packageDirConfigs cfg taskDir of
                      Some l \<Rightarrow> ld_config l
                    | None \<Rightarrow> ld_config (rootConfig cfg))
      in \<lparr>tc_dir = taskDir, tc_name = taskName,
          tc_config = (case Option.bind (lc_tasks config) (\<lambda>ts. ts taskName) of
                         None \<Rightarrow> emptyTask
                       | Some t \<Rightarrow> t)\<rparr>)"

definition getTaskKey :: "lib \<Rightarrow> Config \<Rightarrow> string \<Rightarrow> string \<Rightarrow> error + string" where
  "getTaskKey L cfg taskDir taskName =
     (if \<not> path_isAbsolute L taskDir then Inl (TaskDirNotAbsolute taskDir)
      else Inr (taskName @ ''::'' @
             (let r = path_relative L (workspaceRoot cfg) taskDir
              in if r = [] then ''<rootDir>'' else r)))"

record base_cache =
  b_includes :: "string list"
  b_excludes :: "string list"
  b_envInputs :: "string list"

definition getBaseCacheConfig :: "Config \<Rightarrow> string \<Rightarrow> base_cache" where
  "getBaseCacheConfig cfg taskDir =
     (let config =
        (case Option.bind (packageDirConfigs cfg taskDir) (\<lambda>l. baseCacheConfig (ld_config l)) of
           Some b \<Rightarrow> Some b
         | None \<Rightarrow> baseCacheConfig (ld_config (rootConfig cfg)))
      in \<lparr>b_includes = (case Option.bind config bc_includes of
                        None \<Rightarrow> [''<rootDir>/{yarn.lock,pnpm-lock.yaml,package-lock.json}'',
                                 ''<rootDir>/lazy.config.*'']
                      | Some i \<Rightarrow> i),
          b_excludes = (case Option.bind config bc_excludes of None \<Rightarrow> [] | Some e \<Rightarrow> e),
          b_envInputs = (case Option.bind config bc_envInputs of None \<Rightarrow> [] | Some e \<Rightarrow> e)\<rparr>)"

section \<open>The order of manifest types (computeManifest.js)\<close>

definition types_upstreamTaskInputs :: string where
  "types_upstreamTaskInputs = ''upstream task inputs''"

definition types_dependencyTaskInputs :: string where
  "types_dependencyTaskInputs = ''dependency task inputs''"

definition types_envVar :: string where
  "types_envVar = ''env var''"

definition types_file :: string where
  "types_file = ''file''"

definition order :: "string list" where
  "order = [types_upstreamTaskInputs, types_dependencyTaskInputs, types_envVar, types_file]"

text \<open>\<^verbatim>\<open>Array.prototype.indexOf\<close>: the first index of the element, \<open>-1\<close> when absent.\<close>

fun indexOf :: "'a list \<Rightarrow> 'a \<Rightarrow> int" where
  "indexOf [] a = -1"
| "indexOf (x # xs) a =
     (if x = a then 0 else (let i = indexOf xs a in if i = -1 then -1 else i + 1))"

definition compareManifestTypes :: "string \<Rightarrow> string \<Rightarrow> int" where
  "compareManifestTypes a b =
     (let aIndex = indexOf order a;
          bIndex = indexOf order b
      in if aIndex = bIndex then 0 else if aIndex < bIndex then -1 else 1)"

section \<open>The disk\<close>

text \<open>
  A file has its bytes and its modification time; \<^verbatim>\<open>stat.size\<close> is the number of bytes.
  Manifest and diff files are kept apart from the other files and in parsed form: a manifest
  file is the list of its entries, and its bytes are \<open>manifestBytes\<close> of that list.
\<close>

record fs_file =
  content :: string
  mtimeMs :: real

record entry =
  e_type :: string
  e_id :: string
  e_hash :: string
  e_meta :: "string option"

datatype diff_line = Added string string | Removed string string | Changed string string

record disk =
  dirs :: "string set"
  files :: "string \<rightharpoonup> fs_file"
  manifests :: "string \<rightharpoonup> entry list"
  diffs :: "string \<rightharpoonup> diff_line list"

definition existsSync :: "disk \<Rightarrow> string \<Rightarrow> bool" where
  "existsSync d p \<longleftrightarrow>
     p \<in> dirs d \<or> files d p \<noteq> None \<or> manifests d p \<noteq> None \<or> diffs d p \<noteq> None"

text \<open>\<^verbatim>\<open>mkdirSync(p, { recursive: true })\<close>.  Only the directory named is recorded: the
  program asks \<^verbatim>\<open>existsSync\<close> about the directories it creates itself and about no
  ancestor of them.\<close>

definition mkdirSync :: "disk \<Rightarrow> string \<Rightarrow> disk" where
  "mkdirSync d p = d\<lparr>dirs := insert p (dirs d)\<rparr>"

definition statSync :: "disk \<Rightarrow> string \<Rightarrow> error + fs_file" where
  "statSync d p = (case files d p of None \<Rightarrow> Inl (ENOENT p) | Some f \<Rightarrow> Inr f)"

section \<open>The manifest builder\<close>

text \<open>Modelled from the spec: the manifest codec is missing.  Spec 4.2: a line is the
  type, the id, the hash and the optional metadata, separated by tabs and ended by a newline;
  the bytes of a manifest are its lines in order.\<close>

definition serializeEntry :: "entry \<Rightarrow> string" where
  "serializeEntry e =
     e_type e @ [CHR 0x09] @ e_id e @ [CHR 0x09] @ e_hash e
       @ (case e_meta e of None \<Rightarrow> [] | Some m \<Rightarrow> [CHR 0x09] @ m) @ [CHR 0x0A]"

definition manifestBytes :: "entry list \<Rightarrow> string" where
  "manifestBytes es = concat (map serializeEntry es)"

text \<open>Modelled from the spec: the order that the builder asserts is in the missing
  ManifestConstructor.js.  Spec 3 and 9: entries are ordered by the rank of the type, which
  is \<^verbatim>\<open>upstream task inputs\<close>, \<^verbatim>\<open>upstream package inputs\<close>, \<^verbatim>\<open>env var\<close>, \<^verbatim>\<open>file\<close>,
  then by id ascending, and a (type, id) appears at most once.\<close>

definition canonicalOrder :: "string list" where
  "canonicalOrder = [''upstream task inputs'', ''upstream package inputs'', ''env var'', ''file'']"

definition entryBefore :: "entry \<Rightarrow> entry \<Rightarrow> bool" where
  "entryBefore a b =
     (let aRank = indexOf canonicalOrder (e_type a);
          bRank = indexOf canonicalOrder (e_type b)
      in aRank < bRank \<or> (aRank = bRank \<and> e_id a < e_id b))"

definition sameKey :: "entry \<Rightarrow> entry \<Rightarrow> bool" where
  "sameKey a b \<longleftrightarrow> e_type a = e_type b \<and> e_id a = e_id b"

text \<open>Modelled from the spec: the state of the builder (ManifestConstructor.js is missing):
  its three paths, the previous manifest as it was read, \<open>None\<close> when there was none, the
  lines of the previous manifest that have not been passed yet, and the entries appended so
  far.\<close>

record ManifestConstructor =
  mc_diffPath :: string
  mc_previousManifestPath :: string
  mc_nextManifestPath :: string
  mc_previous :: "entry list option"
  mc_unread :: "entry list"
  mc_lines :: "entry list"

text \<open>Modelled from the spec: ManifestConstructor.js is missing.  The constructor reads the
  previous manifest, if any, as an ordered stream (spec 4.2, Read); no line of it is passed
  and no entry is written yet.\<close>

definition newManifestConstructor :: "disk \<Rightarrow> string \<Rightarrow> string \<Rightarrow> string \<Rightarrow> ManifestConstructor" where
  "newManifestConstructor d diffPath previousManifestPath nextManifestPath =
     \<lparr>mc_diffPath = diffPath, mc_previousManifestPath = previousManifestPath,
      mc_nextManifestPath = nextManifestPath,
      mc_previous = manifests d previousManifestPath,
      mc_unread = (case manifests d previousManifestPath of None \<Rightarrow> [] | Some prev \<Rightarrow> prev),
      mc_lines = []\<rparr>"

text \<open>Modelled from the spec: how the builder moves along the previous manifest is in the
  missing ManifestConstructor.js.  Spec 4.2 and 4.3: the previous manifest and the new one are
  two streams in canonical order, and the diff is made while the new one is built.  When an
  entry is appended, the unread lines of the previous manifest that come before it are
  passed (they are the removed ones), and so is a line of the same (type, id) (the entry is
  then unchanged or changed); a line that comes after the entry stays unread (the entry is
  added).  The integration tests (test/integration/dependent.test.ts) agree: after a file
  is added or changed, the files that follow it are not hashed again
  (\<^verbatim>\<open>Hashed 1/4 files\<close>, \<^verbatim>\<open>Hashed 1/3 files\<close>), so the entry of the added file leaves
  the next line unread and the entry of the changed file passes its own line.\<close>

definition passPrevious :: "entry \<Rightarrow> entry list \<Rightarrow> entry list" where
  "passPrevious e unread =
     (case dropWhile (\<lambda>p. entryBefore p e) unread of
        [] \<Rightarrow> []
      | p # ps \<Rightarrow> if sameKey p e then ps else p # ps)"

text \<open>Modelled from the spec: ManifestConstructor.update is missing.  Spec 4.3: append the
  entry; entries must come in canonical order, the builder asserts the order against the last
  entry and fails otherwise.\<close>

definition mc_update :: "ManifestConstructor \<Rightarrow> string \<Rightarrow> string \<Rightarrow> string \<Rightarrow> string option
    \<Rightarrow> error + ManifestConstructor" where
  "mc_update mc type ident hash meta =
     (let e = \<lparr>e_type = type, e_id = ident, e_hash = hash, e_meta = meta\<rparr>
      in if mc_lines mc \<noteq> [] \<and> \<not> entryBefore (last (mc_lines mc)) e
         then Inl InvalidManifestOrder
         else Inr (mc\<lparr>mc_unread := passPrevious e (mc_unread mc),
                      mc_lines := mc_lines mc @ [e]\<rparr>))"

text \<open>Modelled from the spec: ManifestConstructor.copyLineOverIfMetaIsSame is missing.
  Spec 4.3: if the previous manifest has the (type, id) with metadata equal to the supplied
  metadata, the previous entry's hash becomes the new entry's hash and the result is true;
  otherwise the result is false and nothing is appended.  The line of the previous manifest
  that is looked at is the next unread one, and no line is passed to find another: in the
  integration test \<^verbatim>\<open>deleting an input file causes the task to re-run\<close>
  (test/integration/dependent.test.ts), \<^verbatim>\<open>packages/utils/package.json\<close> is unchanged and
  follows the line of the deleted \<^verbatim>\<open>packages/utils/index.js\<close> in the previous manifest, and
  the run reports \<^verbatim>\<open>Hashed 1/2 files\<close>.\<close>

definition mc_copyLineOverIfMetaIsSame :: "ManifestConstructor \<Rightarrow> string \<Rightarrow> string \<Rightarrow> string
    \<Rightarrow> error + (bool \<times> ManifestConstructor)" where
  "mc_copyLineOverIfMetaIsSame mc type ident meta =
     (case mc_unread mc of
        [] \<Rightarrow> Inr (False, mc)
      | p # ps \<Rightarrow>
          if e_type p = type \<and> e_id p = ident \<and> e_meta p = Some meta
          then (case mc_update mc type ident (e_hash p) (Some meta) of
                  Inl err \<Rightarrow> Inl err
                | Inr mc' \<Rightarrow> Inr (True, mc'))
          else Inr (False, mc))"

text \<open>Modelled from the spec: the diff of the manifest codec is missing.  Spec 4.2: an entry
  of the new manifest whose (type, id) the previous one lacks is added, one with a different
  hash is changed, and an entry of the previous manifest whose (type, id) the new one lacks
  is removed.\<close>

definition manifestDiff :: "entry list \<Rightarrow> entry list \<Rightarrow> diff_line list" where
  "manifestDiff prev new =
     concat (map (\<lambda>e. case find (sameKey e) prev of
                         None \<Rightarrow> [Added (e_type e) (e_id e)]
                       | Some p \<Rightarrow> if e_hash p = e_hash e then [] else [Changed (e_type e) (e_id e)]) new)
     @ concat (map (\<lambda>p. case find (sameKey p) new of
                           None \<Rightarrow> [Removed (e_type p) (e_id p)]
                         | Some e \<Rightarrow> []) prev)"

text \<open>Modelled from the spec: ManifestConstructor.end is missing.  Spec 4.3: write the
  \<^verbatim>\<open>.next\<close> manifest, write the diff against the previous manifest, rename \<^verbatim>\<open>.next\<close> to the
  final manifest; \<open>didChange\<close> is false iff the aggregate hash equals the aggregate hash of the
  previous manifest, so it is true when there was no previous manifest.  The aggregate hash is
  the hash of the serialized lines (spec 3).\<close>

definition mc_end :: "lib \<Rightarrow> ManifestConstructor \<Rightarrow> disk \<Rightarrow> (bool \<times> string) \<times> disk" where
  "mc_end L mc d =
     (let hash = hashString L (manifestBytes (mc_lines mc));
          didChange = (case mc_previous mc of
                         None \<Rightarrow> True
                       | Some prev \<Rightarrow> hashString L (manifestBytes prev) \<noteq> hash);
          d1 = d\<lparr>manifests := (manifests d)(mc_nextManifestPath mc \<mapsto> mc_lines mc)\<rparr>;
          d2 = d1\<lparr>diffs := (diffs d1)(mc_diffPath mc \<mapsto>
                  manifestDiff (case mc_previous mc of None \<Rightarrow> [] | Some prev \<Rightarrow> prev)
                    (mc_lines mc))\<rparr>;
          d3 = d2\<lparr>manifests := ((manifests d2)(mc_nextManifestPath mc := None))
                  (mc_previousManifestPath mc \<mapsto> mc_lines mc)\<rparr>
      in ((didChange, hash), d3))"

text \<open>Modelled from the spec: uniq.js is missing.  Spec 4.6 step 2c takes the unique
  elements; the first occurrence of each is kept.\<close>

fun uniq :: "'a list \<Rightarrow> 'a list" where
  "uniq [] = []"
| "uniq (x # xs) = x # filter (\<lambda>y. y \<noteq> x) (uniq xs)"

section \<open>The task graph and computeManifest (computeManifest.js)\<close>

datatype task_status = Pending | Running | SuccessEager | SuccessLazy | Failure | Skipped

record ScheduledTask =
  taskDir :: string
  taskName :: string
  taskConfig :: TaskConfig
  packageDetails :: "PackageDetails option"
  upstreamKeys :: "string list"
  inputManifestCacheKey :: "string option"
  outputFiles :: "string list"
  status :: task_status

record TaskGraph =
  config :: Config
  allTasks :: "string \<rightharpoonup> ScheduledTask"
  sortedTaskKeys :: "string list"

text \<open>A \<^verbatim>\<open>throw\<close> ends the function: the rest of a computation runs only on a value.\<close>

definition bindE :: "error + 'a \<Rightarrow> ('a \<Rightarrow> error + 'b) \<Rightarrow> error + 'b" where
  "bindE m f = (case m of Inl e \<Rightarrow> Inl e | Inr x \<Rightarrow> f x)"

text \<open>A \<^verbatim>\<open>for ... of\<close> loop whose body may throw, and \<^verbatim>\<open>Array.prototype.map\<close> with a
  function that may throw.\<close>

fun forEachE :: "('a \<Rightarrow> 's \<Rightarrow> error + 's) \<Rightarrow> 'a list \<Rightarrow> 's \<Rightarrow> error + 's" where
  "forEachE f [] s = Inr s"
| "forEachE f (x # xs) s = bindE (f x s) (forEachE f xs)"

fun mapE :: "('a \<Rightarrow> error + 'b) \<Rightarrow> 'a list \<Rightarrow> error + 'b list" where
  "mapE f [] = Inr []"
| "mapE f (x # xs) = bindE (f x) (\<lambda>y. bindE (mapE f xs) (\<lambda>ys. Inr (y # ys)))"

text \<open>JavaScript truthiness of an optional boolean.\<close>

definition truthy :: "bool option \<Rightarrow> bool" where
  "truthy b \<longleftrightarrow> b = Some True"

text \<open>\<^verbatim>\<open>depTask.inputManifestCacheKey\<close> where it is truthy: a missing key and the empty
  string are both falsy.\<close>

definition cacheKeyOf :: "ScheduledTask \<Rightarrow> string option" where
  "cacheKeyOf depTask =
     (case inputManifestCacheKey depTask of
        None \<Rightarrow> None
      | Some k \<Rightarrow> if k = [] then None else Some k)"

text \<open>The two constants at the head of the body of the loop over
  \<^verbatim>\<open>Object.entries(task.taskConfig.runsAfter ?? {})\<close>: \<^verbatim>\<open>isTopLevel\<close> and \<^verbatim>\<open>key\<close>.\<close>

definition isTopLevel :: "TaskGraph \<Rightarrow> ScheduledTask \<Rightarrow> string \<Rightarrow> bool" where
  "isTopLevel tg task otherTaskName \<longleftrightarrow>
     runType (getTaskConfig (config tg) (taskDir task) otherTaskName) = TopLevel"

definition runsAfterKey :: "lib \<Rightarrow> TaskGraph \<Rightarrow> ScheduledTask \<Rightarrow> string \<Rightarrow> error + string" where
  "runsAfterKey L tg task otherTaskName =
     getTaskKey L (config tg)
       (if isTopLevel tg task otherTaskName then workspaceRoot (config tg) else taskDir task)
       otherTaskName"

text \<open>The body of that loop; the state is the builder and \<^verbatim>\<open>extraFiles\<close>.\<close>

definition runsAfterStep :: "lib \<Rightarrow> TaskGraph \<Rightarrow> ScheduledTask \<Rightarrow> string \<times> runs_after_config
    \<Rightarrow> ManifestConstructor \<times> string list list \<Rightarrow> error + (ManifestConstructor \<times> string list list)" where
  "runsAfterStep L tg task ent st =
     (case ent of (otherTaskName, depConfig) \<Rightarrow>
      case st of (mc, extraFiles) \<Rightarrow>
        if \<not> truthy (inheritsInput depConfig) \<and> usesOutput depConfig = Some False
        then Inr (mc, extraFiles)
        else
          bindE (runsAfterKey L tg task otherTaskName)
               (\<lambda>key.
                  case allTasks tg key of
                    None \<Rightarrow> if isTopLevel tg task otherTaskName then Inl (MissingTask key)
                            else Inr (mc, extraFiles)
                  | Some depTask \<Rightarrow>
                      bindE (if truthy (inheritsInput depConfig)
                             then (case cacheKeyOf depTask of
                                     None \<Rightarrow> Inl (MissingInputManifestCacheKey key)
                                   | Some k \<Rightarrow> mc_update mc ''upstream task inputs'' key k None)
                             else Inr mc)
                        (\<lambda>mc'. Inr (mc', if usesOutput depConfig \<noteq> Some False
                                        then extraFiles @ [outputFiles depTask]
                                        else extraFiles))))"

definition runsAfterLoop :: "lib \<Rightarrow> TaskGraph \<Rightarrow> ScheduledTask \<Rightarrow> ManifestConstructor
    \<Rightarrow> error + (ManifestConstructor \<times> string list list)" where
  "runsAfterLoop L tg task mc =
     forEachE (runsAfterStep L tg task) (runsAfter (taskConfig task)) (mc, [])"

text \<open>\<^verbatim>\<open>task.taskConfig.cache?.inheritsInputFromDependencies ?? true\<close> and
  \<^verbatim>\<open>task.taskConfig.cache?.envInputs ?? []\<close>: the string \<^verbatim>\<open>'none'\<close> has neither property.\<close>

definition cacheInheritsInputFromDependencies :: "cache_value \<Rightarrow> bool" where
  "cacheInheritsInputFromDependencies c =
     (case c of CacheNone \<Rightarrow> True | Cache r \<Rightarrow> inheritsInputFromDependencies r)"

definition cacheEnvInputs :: "cache_value \<Rightarrow> string list" where
  "cacheEnvInputs c = (case c of CacheNone \<Rightarrow> [] | Cache r \<Rightarrow> envInputs r)"

text \<open>\<^verbatim>\<open>task.packageDetails?.localDeps?.map(...).sort()\<close>: reading \<^verbatim>\<open>dir\<close> of a package that
  \<^verbatim>\<open>packagesByName\<close> lacks is a TypeError.\<close>

definition upstreamTaskKeys :: "lib \<Rightarrow> TaskGraph \<Rightarrow> ScheduledTask \<Rightarrow> error + string list option" where
  "upstreamTaskKeys L tg task =
     (case Option.bind (packageDetails task) localDeps of
        None \<Rightarrow> Inr None
      | Some deps \<Rightarrow>
          bindE (mapE (\<lambda>packageName.
                         case map_of (packagesByName (repoDetails (config tg))) packageName of
                           None \<Rightarrow> Inl TypeError
                         | Some depPackage \<Rightarrow>
                             getTaskKey L (config tg) (pkg_dir depPackage) (taskName task)) deps)
            (\<lambda>keys. Inr (Some (sort keys))))"

definition packageInputsStep :: "TaskGraph \<Rightarrow> string \<Rightarrow> ManifestConstructor \<Rightarrow> error + ManifestConstructor" where
  "packageInputsStep tg key mc =
     (case allTasks tg key of
        None \<Rightarrow> Inr mc
      | Some depTask \<Rightarrow>
          (case cacheKeyOf depTask of
             None \<Rightarrow> Inl (MissingInputManifestCacheKey key)
           | Some k \<Rightarrow> mc_update mc ''upstream package inputs'' key k None))"

definition packageInputsLoop :: "lib \<Rightarrow> TaskGraph \<Rightarrow> ScheduledTask \<Rightarrow> ManifestConstructor
    \<Rightarrow> error + ManifestConstructor" where
  "packageInputsLoop L tg task mc =
     (if runType (taskConfig task) \<noteq> Independent
         \<and> cacheInheritsInputFromDependencies (cache (taskConfig task))
      then bindE (upstreamTaskKeys L tg task)
             (\<lambda>keys. case keys of
                        None \<Rightarrow> Inr mc
                      | Some ks \<Rightarrow> forEachE (packageInputsStep tg) ks mc)
      else Inr mc)"

definition allEnvVars :: "TaskGraph \<Rightarrow> ScheduledTask \<Rightarrow> string list" where
  "allEnvVars tg task =
     sort (uniq (b_envInputs (getBaseCacheConfig (config tg) (taskDir task))
                   @ cacheEnvInputs (cache (taskConfig task))))"

text \<open>\<^verbatim>\<open>process.env[envVar]\<close>.  The environment is the map of the variables that are set.
  The object \<^verbatim>\<open>process.env\<close> inherits from \<^verbatim>\<open>Object.prototype\<close>, so for a name that is
  not set and that \<^verbatim>\<open>Object.prototype\<close> defines the value is the inherited member, a
  function or an object, and not \<^verbatim>\<open>undefined\<close>; \<open>None\<close> is \<^verbatim>\<open>undefined\<close>.\<close>

datatype env_value = EnvString string | EnvInherited string

definition objectPrototypeNames :: "string list" where
  "objectPrototypeNames =
     [''constructor'', ''__defineGetter__'', ''__defineSetter__'', ''hasOwnProperty'',
      ''__lookupGetter__'', ''__lookupSetter__'', ''isPrototypeOf'', ''propertyIsEnumerable'',
      ''toString'', ''valueOf'', ''__proto__'', ''toLocaleString'']"

definition processEnvGet :: "(string \<rightharpoonup> string) \<Rightarrow> string \<Rightarrow> env_value option" where
  "processEnvGet env name =
     (case env name of
        Some v \<Rightarrow> Some (EnvString v)
      | None \<Rightarrow> if name \<in> set objectPrototypeNames then Some (EnvInherited name) else None)"

text \<open>\<^verbatim>\<open>hashString\<close> applied to a value read from \<^verbatim>\<open>process.env\<close>.\<close>

definition hashStringOf :: "lib \<Rightarrow> env_value \<Rightarrow> error + string" where
  "hashStringOf L v = (case v of EnvString s \<Rightarrow> Inr (hashString L s) | EnvInherited n \<Rightarrow> hashInherited L n)"

text \<open>\<^verbatim>\<open>hashString(process.env[envVar] ?? '')\<close>, where \<^verbatim>\<open>??\<close> replaces \<^verbatim>\<open>undefined\<close> and
  nothing else.\<close>

definition envVarHash :: "lib \<Rightarrow> (string \<rightharpoonup> string) \<Rightarrow> string \<Rightarrow> error + string" where
  "envVarHash L env envVar =
     hashStringOf L (case processEnvGet env envVar of None \<Rightarrow> EnvString [] | Some v \<Rightarrow> v)"

text \<open>The body of the loop over the environment variables.\<close>

definition envVarStep :: "lib \<Rightarrow> (string \<rightharpoonup> string) \<Rightarrow> string \<Rightarrow> ManifestConstructor
    \<Rightarrow> error + ManifestConstructor" where
  "envVarStep L env envVar mc =
     bindE (envVarHash L env envVar) (\<lambda>hash. mc_update mc ''env var'' envVar hash None)"

definition envVarLoop :: "lib \<Rightarrow> (string \<rightharpoonup> string) \<Rightarrow> TaskGraph \<Rightarrow> ScheduledTask
    \<Rightarrow> ManifestConstructor \<Rightarrow> error + ManifestConstructor" where
  "envVarLoop L env tg task mc = forEachE (envVarStep L env) (allEnvVars tg task) mc"

text \<open>The body of the loop over \<^verbatim>\<open>files.sort()\<close>; the state is the builder with
  \<^verbatim>\<open>numSkipped\<close> and \<^verbatim>\<open>numHashed\<close>.\<close>

definition fileStep :: "lib \<Rightarrow> TaskGraph \<Rightarrow> disk \<Rightarrow> string \<Rightarrow> ManifestConstructor \<times> nat \<times> nat
    \<Rightarrow> error + (ManifestConstructor \<times> nat \<times> nat)" where
  "fileStep L tg d file st =
     (case st of (mc, numSkipped, numHashed) \<Rightarrow>
        let fullPath = path_join L (workspaceRoot (config tg)) file
        in bindE (statSync d fullPath)
             (\<lambda>stat.
                let timestamp = js_String L (mtimeMs stat)
                in bindE (mc_copyLineOverIfMetaIsSame mc ''file'' file timestamp)
                     (\<lambda>r. case r of (copied, mc1) \<Rightarrow>
                        if copied then Inr (mc1, numSkipped + 1, numHashed)
                        else
                          let hash = hashFile L (content stat) (length (content stat))
                          in bindE (mc_update mc1 ''file'' file hash (Some timestamp))
                               (\<lambda>mc2. Inr (mc2, numSkipped, numHashed + 1)))))"

definition fileLoop :: "lib \<Rightarrow> TaskGraph \<Rightarrow> disk \<Rightarrow> string list \<Rightarrow> ManifestConstructor
    \<Rightarrow> error + (ManifestConstructor \<times> nat \<times> nat)" where
  "fileLoop L tg d fs mc = forEachE (fileStep L tg d) (sort fs) (mc, 0, 0)"

text \<open>What a call that reaches its end leaves behind: the value returned, the task with its
  new \<^verbatim>\<open>inputManifestCacheKey\<close>, and the two counters.  The source shows the counters in a
  log note when the loop took more than 100 ms; the note and the timer are left out.\<close>

record computed =
  didChange :: bool
  updatedTask :: ScheduledTask
  numSkipped :: nat
  numHashed :: nat

text \<open>The entries the calls before the file loop supply, in the order of the source: the
  \<^verbatim>\<open>runsAfter\<close> entries, the package dependencies, the environment variables.\<close>

definition upstreamAndEnv :: "lib \<Rightarrow> (string \<rightharpoonup> string) \<Rightarrow> TaskGraph \<Rightarrow> ScheduledTask
    \<Rightarrow> ManifestConstructor \<Rightarrow> error + (ManifestConstructor \<times> string list list)" where
  "upstreamAndEnv L env tg task mc =
     bindE (runsAfterLoop L tg task mc)
       (\<lambda>r. case r of (mc1, extraFiles) \<Rightarrow>
          bindE (packageInputsLoop L tg task mc1)
            (\<lambda>mc2. bindE (envVarLoop L env tg task mc2)
               (\<lambda>mc3. Inr (mc3, extraFiles))))"

text \<open>The three \<^verbatim>\<open>mkdirSync\<close> guards at the head of computeManifest.\<close>

definition ensureDirs :: "lib \<Rightarrow> TaskConfig \<Rightarrow> disk \<Rightarrow> disk" where
  "ensureDirs L tc d =
     (let manifestPath = getManifestPath L tc;
          nextManifestPath = getNextManifestPath L tc;
          diffPath = getDiffPath L tc;
          d1 = (if \<not> existsSync d (path_dirname L manifestPath)
                then mkdirSync d (path_dirname L manifestPath) else d);
          d2 = (if \<not> existsSync d1 (path_dirname L nextManifestPath)
                then mkdirSync d1 (path_dirname L nextManifestPath) else d1)
      in if diffPath \<noteq> [] \<and> \<not> existsSync d2 (path_dirname L diffPath)
         then mkdirSync d2 (path_dirname L diffPath) else d2)"

text \<open>\<^verbatim>\<open>getInputFiles\<close> (getInputFiles.js is missing) is the parameter \<open>G\<close>; \<open>None\<close> is its
  \<^verbatim>\<open>null\<close>.  The result \<open>Inr None\<close> is the \<^verbatim>\<open>null\<close> that computeManifest returns.\<close>

definition computeManifest :: "lib \<Rightarrow> (disk \<Rightarrow> TaskGraph \<Rightarrow> ScheduledTask \<Rightarrow> string list \<Rightarrow> string list option)
    \<Rightarrow> (string \<rightharpoonup> string) \<Rightarrow> TaskGraph \<Rightarrow> ScheduledTask \<Rightarrow> disk
    \<Rightarrow> disk \<times> (error + computed option)" where
  "computeManifest L G env tg task d =
     (if cache (taskConfig task) = CacheNone then (d, Inr None)
      else
        let manifestPath = getManifestPath L (taskConfig task);
            nextManifestPath = getNextManifestPath L (taskConfig task);
            diffPath = getDiffPath L (taskConfig task);
            d3 = ensureDirs L (taskConfig task) d;
            manifestConstructor = newManifestConstructor d3 diffPath manifestPath nextManifestPath
        in case upstreamAndEnv L env tg task manifestConstructor of
             Inl e \<Rightarrow> (d3, Inl e)
           | Inr (mc, extraFiles) \<Rightarrow>
               (case G d3 tg task (concat extraFiles) of
                  None \<Rightarrow> (d3, Inr None)
                | Some fs \<Rightarrow>
                    (case fileLoop L tg d3 fs mc of
                       Inl e \<Rightarrow> (d3, Inl e)
                     | Inr (mc', skipped, hashed) \<Rightarrow>
                         (case mc_end L mc' d3 of
                            ((changed, hash), d4) \<Rightarrow>
                              (d4, Inr (Some \<lparr>didChange = changed,
                                   updatedTask = task\<lparr>inputManifestCacheKey := Some hash\<rparr>,
                                   numSkipped = skipped, numHashed = hashed\<rparr>))))))"

section \<open>The scheduler\<close>

text \<open>What the runner does not compute itself: the input files of a task, the child process
  of its command (its exit code and what it leaves on the disk), the files matching the
  task's output globs, the environment, and the \<^verbatim>\<open>--force\<close> flag.\<close>

record runner =
  getInputFiles :: "disk \<Rightarrow> TaskGraph \<Rightarrow> ScheduledTask \<Rightarrow> string list \<Rightarrow> string list option"
  spawnCommand :: "ScheduledTask \<Rightarrow> disk \<Rightarrow> int \<times> disk"
  globOutputFiles :: "disk \<Rightarrow> ScheduledTask \<Rightarrow> string list"
  processEnv :: "string \<rightharpoonup> string"
  force :: bool

text \<open>What the step for one task leaves: the task as the scheduler stores it, whether the
  task's command was spawned, and the number of input files whose content was hashed.\<close>

record task_run =
  ranTask :: ScheduledTask
  spawned :: bool
  hashedFiles :: nat

text \<open>Modelled from the spec: the scheduler's step for one task (TaskGraph.js) is missing.
  Spec 4.6, steps 2 to 5: build the manifest; the task is a cache miss if \<^verbatim>\<open>force\<close> is
  set, or the previous manifest did not exist, or \<open>didChange\<close> is true, and then its command
  is spawned (exit code 0 is \<^verbatim>\<open>success:eager\<close>, any other \<^verbatim>\<open>failure\<close>); otherwise it is a
  cache hit, \<^verbatim>\<open>success:lazy\<close>, and nothing is spawned.  Spec 8: a task whose cache is \<^verbatim>\<open>"none"\<close> always runs.  After a
  successful run or a hit, \<^verbatim>\<open>outputFiles\<close> is the sorted list of the files matching the
  output globs.\<close>

definition runTask :: "lib \<Rightarrow> runner \<Rightarrow> TaskGraph \<Rightarrow> ScheduledTask \<Rightarrow> disk
    \<Rightarrow> disk \<times> (error + task_run)" where
  "runTask L R tg task d =
     (let hadPrevious = (manifests d (getManifestPath L (taskConfig task)) \<noteq> None)
      in case computeManifest L (getInputFiles R) (processEnv R) tg task d of
           (d1, Inl e) \<Rightarrow> (d1, Inl e)
         | (d1, Inr r) \<Rightarrow>
             let task1 = (case r of None \<Rightarrow> task | Some c \<Rightarrow> updatedTask c);
                 miss = (case r of None \<Rightarrow> True
                         | Some c \<Rightarrow> force R \<or> \<not> hadPrevious \<or> didChange c);
                 hashed = (case r of None \<Rightarrow> 0 | Some c \<Rightarrow> numHashed c)
             in if miss
                then (case spawnCommand R task1 d1 of
                        (code, d2) \<Rightarrow>
                          if code = 0
                          then (d2, Inr \<lparr>ranTask = task1\<lparr>status := SuccessEager,
                                            outputFiles := sort (globOutputFiles R d2 task1)\<rparr>,
                                          spawned = True, hashedFiles = hashed\<rparr>)
                          else (d2, Inr \<lparr>ranTask = task1\<lparr>status := Failure\<rparr>, spawned = True,
                                          hashedFiles = hashed\<rparr>))
                else (d1, Inr \<lparr>ranTask = task1\<lparr>status := SuccessLazy,
                                  outputFiles := sort (globOutputFiles R d1 task1)\<rparr>,
                                spawned = False, hashedFiles = hashed\<rparr>))"




section \<open>Loading the configuration and the run command (config.js, commands/run.js)\<close>

text \<open>How a piece of the program ends: it returns a value, it throws, or it ends the
  process with \<^verbatim>\<open>process.exit(code)\<close>.\<close>

datatype 'a proc = Return 'a | Throw error | Exit int

definition bindP :: "'a proc \<Rightarrow> ('a \<Rightarrow> 'b proc) \<Rightarrow> 'b proc" where
  "bindP m f = (case m of Return x \<Rightarrow> f x | Throw e \<Rightarrow> Throw e | Exit c \<Rightarrow> Exit c)"

text \<open>\<^verbatim>\<open>Promise.all(xs.map(async ...))\<close>: every callback is started, in order, before any
  result is awaited, and an exit ends the process where it happens; without an exit, the
  first rejection is the result.\<close>

fun promiseAll :: "'a proc list \<Rightarrow> 'a list proc" where
  "promiseAll [] = Return []"
| "promiseAll (p # ps) =
     (case p of
        Exit c \<Rightarrow> Exit c
      | Throw e \<Rightarrow> (case promiseAll ps of Exit c \<Rightarrow> Exit c | _ \<Rightarrow> Throw e)
      | Return x \<Rightarrow> bindP (promiseAll ps) (\<lambda>xs. Return (x # xs)))"

text \<open>\<^verbatim>\<open>Array.prototype.join\<close>.\<close>

fun joinStrings :: "string \<Rightarrow> string list \<Rightarrow> string" where
  "joinStrings sep [] = []"
| "joinStrings sep [x] = x"
| "joinStrings sep (x # y # ys) = x @ sep @ joinStrings sep (y # ys)"

datatype filter_option = FilterOne string | FilterMany "string list"

record CLIOption =
  opt_filter :: "filter_option option"
  opt_force :: "bool option"
  opt_extraArgs :: "string list option"

record RequestedTask =
  rt_taskName :: string
  rt_filterPaths :: "string list"
  rt_force :: "bool option"
  rt_extraArgs :: "string list option"

text \<open>The parts of the program that config.js and run.js call and that are missing:
  \<^verbatim>\<open>logger.fail\<close>, workspace discovery, the construction of the task graph and
  \<^verbatim>\<open>runAllTasks\<close>.  The loader of one configuration file (\<^verbatim>\<open>loadConfigObject\<close>, which
  parses, imports or bundles the file) is a parameter too: it gives the configuration object,
  \<open>None\<close> for a falsy one, or the error it throws; the files it writes under \<^verbatim>\<open>.lazy\<close>
  are not tracked.  Messages logged with \<^verbatim>\<open>logger.log\<close> are left out.\<close>

record host =
  logger_fail :: "string \<Rightarrow> unit proc"
  loadConfigObject :: "disk \<Rightarrow> string \<Rightarrow> string \<Rightarrow> error + LazyConfig option"
  getWorkspaceRoot :: "disk \<Rightarrow> string \<Rightarrow> string option"
  getPackageManager :: "disk \<Rightarrow> string \<Rightarrow> string option"
  getRepoDetails :: "disk \<Rightarrow> string \<Rightarrow> RepoDetails"
  newTaskGraph :: "Config \<Rightarrow> RequestedTask list \<Rightarrow> TaskGraph"
  runAllTasks :: "TaskGraph \<Rightarrow> disk \<Rightarrow> (TaskGraph \<times> disk) proc"

text \<open>Modelled from the spec: logger.js is missing.  Spec 7: a fatal error is reported and
  the process exits non-zero.\<close>

definition failAndExit :: "string \<Rightarrow> unit proc" where
  "failAndExit headline = Exit 1"

text \<open>\<^verbatim>\<open>glob.sync('lazy.config.{js,cjs,mjs,ts,cts,mts,json}', { absolute: true, cwd: dir })\<close>:
  the pattern has no wildcard, so it matches the files of these seven names that exist.\<close>

definition configFiles :: "lib \<Rightarrow> disk \<Rightarrow> string \<Rightarrow> string list" where
  "configFiles L d dir =
     filter (\<lambda>p. files d p \<noteq> None)
       (map (\<lambda>ext. path_join L dir (''lazy.config.'' @ ext))
          [''js'', ''cjs'', ''mjs'', ''ts'', ''cts'', ''mts'', ''json''])"

definition getConfigFromDir :: "lib \<Rightarrow> host \<Rightarrow> disk \<Rightarrow> string \<Rightarrow> LoadedConfig proc" where
  "getConfigFromDir L H d dir =
     (let fs = configFiles L d dir
      in if length fs > 1
         then bindP (logger_fail H (''Found multiple lazy config files in dir '' @ [CHR 0x27] @ dir
                         @ [CHR 0x27] @ ''.''))
                (\<lambda>_. Exit 1)
         else if length fs = 0
         then Return \<lparr>ld_config = emptyConfig, filePath = None\<rparr>
         else
           let f = hd fs
           in case loadConfigObject H d dir f of
                Inl e \<Rightarrow> Throw e
              | Inr None \<Rightarrow> Throw InvalidConfigFile
              | Inr (Some cfg) \<Rightarrow> Return \<lparr>ld_config = cfg, filePath = Some f\<rparr>)"

definition Config_from :: "lib \<Rightarrow> host \<Rightarrow> disk \<Rightarrow> string \<Rightarrow> Config proc" where
  "Config_from L H d dir =
     (case getWorkspaceRoot H d dir of
        None \<Rightarrow> bindP (logger_fail H (''Could not find workspace root for dir '' @ [CHR 0x27] @ dir
                           @ [CHR 0x27]))
                  (\<lambda>_. Exit 1)
      | Some wsRoot \<Rightarrow>
          bindP (case getPackageManager H d wsRoot of
                   None \<Rightarrow> logger_fail H (''Could not determine which package manager is in use ''
                             @ [CHR 0x27] @ dir @ [CHR 0x27] @ '' '' @ [CHR 0x27] @ wsRoot @ [CHR 0x27])
                 | Some pm \<Rightarrow> Return ())
            (\<lambda>_.
               let details = getRepoDetails H d wsRoot
               in bindP (getConfigFromDir L H d wsRoot)
                    (\<lambda>rootCfg.
                       bindP (promiseAll
                                (map (\<lambda>pkg. bindP (getConfigFromDir L H d (pkg_dir pkg))
                                               (\<lambda>c. Return (pkg_dir pkg, c)))
                                   (map snd (packagesByName details))))
                         (\<lambda>cs. Return
                            \<lparr>rootConfig = rootCfg,
                             packageDirConfigs =
                               fold (\<lambda>c m. if filePath (snd c) \<noteq> None then m(fst c \<mapsto> snd c) else m)
                                 cs Map.empty,
                             workspaceRoot = wsRoot,
                             repoDetails = details\<rparr>))))"

text \<open>Modelled from the spec: TaskGraph.allFailedTasks is missing.  Spec 7: the keys of the
  tasks whose status is \<^verbatim>\<open>failure\<close>.\<close>

definition allFailedTasks :: "TaskGraph \<Rightarrow> string list" where
  "allFailedTasks tg =
     filter (\<lambda>k. case allTasks tg k of None \<Rightarrow> False | Some t \<Rightarrow> status t = Failure)
       (sortedTaskKeys tg)"

text \<open>The constants \<^verbatim>\<open>filterPaths\<close> and \<^verbatim>\<open>requestedTasks\<close> of \<^verbatim>\<open>run\<close>; an empty string is
  falsy, an empty array is not.\<close>

definition requestedTasks :: "string \<Rightarrow> CLIOption \<Rightarrow> RequestedTask list" where
  "requestedTasks name options =
     (let filterPaths = (case opt_filter options of
                           None \<Rightarrow> []
                         | Some (FilterOne p) \<Rightarrow> if p = [] then [] else [p]
                         | Some (FilterMany ps) \<Rightarrow> ps)
      in [\<lparr>rt_taskName = name, rt_filterPaths = filterPaths,
           rt_force = opt_force options, rt_extraArgs = opt_extraArgs options\<rparr>])"

definition run :: "lib \<Rightarrow> host \<Rightarrow> disk \<Rightarrow> string \<Rightarrow> string \<Rightarrow> CLIOption \<Rightarrow> (TaskGraph \<times> disk) proc" where
  "run L H d cwd name options =
     bindP (Config_from L H d cwd)
       (\<lambda>cfg.
          let tg = newTaskGraph H cfg (requestedTasks name options)
          in bindP (if length (sortedTaskKeys tg) = 0
                    then logger_fail H (''No tasks found matching ['' @ name @ ''] in ''
                                          @ workspaceRoot cfg)
                    else Return ())
               (\<lambda>_. bindP (runAllTasks H tg d)
                  (\<lambda>r. case r of (tg', d') \<Rightarrow>
                     let failedTasks = allFailedTasks tg'
                     in bindP (if length failedTasks > 0
                               then logger_fail H (''Failed tasks: '' @ joinStrings '', '' failedTasks)
                               else Return ())
                          (\<lambda>_. Return (tg', d')))))"

text \<open>Modelled from the spec: the entry point (bin.js, execCli.js) is missing.  Spec 6: the
  exit code is 0 when the command comes to its end; \<^verbatim>\<open>process.exit(c)\<close> ends the process
  with \<open>c\<close>, and an error that nothing catches ends it with 1.\<close>

definition exitCode :: "'a proc \<Rightarrow> int" where
  "exitCode p = (case p of Return x \<Rightarrow> 0 | Throw e \<Rightarrow> 1 | Exit c \<Rightarrow> c)"

section \<open>The claims' words as definitions\<close>

text \<open>The fast path of one input file, as claim C5 words it: the previous manifest has a
  \<^verbatim>\<open>file\<close> entry of this path whose metadata is the file's \<^verbatim>\<open>mtimeMs\<close> as a string.\<close>

definition metaIsSame :: "lib \<Rightarrow> entry list option \<Rightarrow> string \<Rightarrow> fs_file \<Rightarrow> bool" where
  "metaIsSame L prev f st =
     (case find (\<lambda>e. e_type e = ''file'' \<and> e_id e = f)
             (case prev of None \<Rightarrow> [] | Some p \<Rightarrow> p) of
        None \<Rightarrow> False
      | Some p \<Rightarrow> e_meta p = Some (js_String L (mtimeMs st)))"

text \<open>The fast path of one input file, with the next unread line of the previous manifest
  in the place of the whole previous manifest: that line is a \<^verbatim>\<open>file\<close> entry of this path
  whose metadata is the file's \<^verbatim>\<open>mtimeMs\<close> as a string.\<close>

definition nextIsSame :: "lib \<Rightarrow> entry list \<Rightarrow> string \<Rightarrow> fs_file \<Rightarrow> bool" where
  "nextIsSame L unread f st =
     (case unread of
        [] \<Rightarrow> False
      | p # ps \<Rightarrow> e_type p = ''file'' \<and> e_id p = f \<and> e_meta p = Some (js_String L (mtimeMs st)))"

text \<open>The entry of one input file: on that fast path the hash of the line, otherwise the
  hash of the file's content; the metadata is the \<^verbatim>\<open>mtimeMs\<close> as a string.\<close>

definition fileEntryAt :: "lib \<Rightarrow> entry list \<Rightarrow> string \<Rightarrow> fs_file \<Rightarrow> entry" where
  "fileEntryAt L unread f st =
     \<lparr>e_type = ''file'', e_id = f,
      e_hash = (if nextIsSame L unread f st then e_hash (hd unread)
                else hashFile L (content st) (length (content st))),
      e_meta = Some (js_String L (mtimeMs st))\<rparr>"

text \<open>The input files one after the other, each with the lines of the previous manifest
  that the entries before it have left unread: for each file, whether it is on the fast
  path, and its entry.\<close>

fun fileWalk :: "lib \<Rightarrow> (string \<Rightarrow> fs_file) \<Rightarrow> entry list \<Rightarrow> string list \<Rightarrow> (bool \<times> entry) list" where
  "fileWalk L stat unread [] = []"
| "fileWalk L stat unread (f # fs) =
     (nextIsSame L unread f (stat f), fileEntryAt L unread f (stat f))
       # fileWalk L stat (passPrevious (fileEntryAt L unread f (stat f)) unread) fs"

section \<open>A small workspace\<close>

text \<open>Concrete values on which the theorems below are evaluated: library functions
  for paths written with slashes, with a \<open>hashString\<close> that throws a TypeError for an
  argument that is not a string, as the \<^verbatim>\<open>update\<close> of Node's \<^verbatim>\<open>crypto\<close> hashes does; and
  the workspace of the integration tests, with the packages \<^verbatim>\<open>utils\<close> and \<^verbatim>\<open>core\<close>, where
  \<^verbatim>\<open>core\<close> depends on \<^verbatim>\<open>utils\<close>.\<close>

definition exLib :: lib where
  "exLib =
     \<lparr>path_join = (\<lambda>a b. a @ ''/'' @ b),
      path_dirname = (\<lambda>p. rev (tl (dropWhile (\<lambda>c. c \<noteq> CHR ''/'') (rev p)))),
      path_relative = (\<lambda>a b. drop (Suc (length a)) b),
      path_isAbsolute = (\<lambda>p. take 1 p = ''/''),
      slugify = (\<lambda>s. s),
      js_String = (\<lambda>r. if r = 1 then ''1'' else if r = 2 then ''2'' else ''0''),
      hashString = (\<lambda>s. ''sha:'' @ s),
      hashFile = (\<lambda>c n. ''sha:'' @ c),
      hashInherited = (\<lambda>n. Inl TypeError)\<rparr>"

definition exUtils :: PackageDetails where
  "exUtils = \<lparr>pkg_name = ''utils'', pkg_dir = ''/repo/packages/utils'', localDeps = Some []\<rparr>"

definition exCore :: PackageDetails where
  "exCore = \<lparr>pkg_name = ''core'', pkg_dir = ''/repo/packages/core'', localDeps = Some [''utils'']\<rparr>"

definition exRepo :: RepoDetails where
  "exRepo = \<lparr>packagesByName = [(''utils'', exUtils), (''core'', exCore)]\<rparr>"

definition exConfig :: "(string \<times> LazyTask) list \<Rightarrow> Config" where
  "exConfig ts =
     \<lparr>rootConfig =
        \<lparr>ld_config =
           \<lparr>baseCacheConfig = Some \<lparr>bc_includes = None, bc_excludes = None,
                                     bc_envInputs = Some [''NODE_ENV'', ''CI'']\<rparr>,
            lc_tasks = Some (map_of ts)\<rparr>,
         filePath = Some ''/repo/lazy.config.json''\<rparr>,
      packageDirConfigs = Map.empty,
      workspaceRoot = ''/repo'',
      repoDetails = exRepo\<rparr>"

definition exTask :: "Config \<Rightarrow> string \<Rightarrow> PackageDetails \<Rightarrow> string option \<Rightarrow> ScheduledTask" where
  "exTask cfg name pkg key =
     \<lparr>taskDir = pkg_dir pkg, taskName = name,
      taskConfig = getTaskConfig cfg (pkg_dir pkg) name,
      packageDetails = Some pkg, upstreamKeys = [], inputManifestCacheKey = key,
      outputFiles = [], status = Pending\<rparr>"

definition exGraph :: "Config \<Rightarrow> (string \<times> ScheduledTask) list \<Rightarrow> TaskGraph" where
  "exGraph cfg ts = \<lparr>config = cfg, allTasks = map_of ts, sortedTaskKeys = map fst ts\<rparr>"

definition exDisk :: disk where
  "exDisk =
     \<lparr>dirs = {},
      files = [''/repo/package-lock.json'' \<mapsto> \<lparr>content = ''{}'', mtimeMs = 1\<rparr>,
               ''/repo/packages/utils/index.js'' \<mapsto> \<lparr>content = ''hello'', mtimeMs = 2\<rparr>],
      manifests = Map.empty,
      diffs = Map.empty\<rparr>"

definition exInputFiles :: "disk \<Rightarrow> TaskGraph \<Rightarrow> ScheduledTask \<Rightarrow> string list \<Rightarrow> string list option" where
  "exInputFiles d tg task extraFiles =
     Some (extraFiles @ [''packages/utils/index.js'', ''package-lock.json''])"

definition exRunner :: runner where
  "exRunner =
     \<lparr>getInputFiles = exInputFiles,
      spawnCommand = (\<lambda>task d. (0, d)),
      globOutputFiles = (\<lambda>d task. []),
      processEnv = [''CI'' \<mapsto> ''true''],
      force = False\<rparr>"

text \<open>A \<^verbatim>\<open>build\<close> task that names two environment variables, in the package
  \<^verbatim>\<open>utils\<close> and in the package \<^verbatim>\<open>core\<close>; no task has a cache key yet.\<close>

definition exBuild :: LazyTask where
  "exBuild =
     emptyTask\<lparr>lt_cache := Some (ConfigCache
        \<lparr>cc_envInputs = Some [''CI'', ''API_URL''], cc_inheritsInputFromDependencies = None,
         cc_inputs = None, cc_outputs = None, cc_usesOutputFromDependencies = None\<rparr>)\<rparr>"

definition exBuildConfig :: Config where
  "exBuildConfig = exConfig [(''build'', exBuild)]"

definition exUtilsBuild :: ScheduledTask where
  "exUtilsBuild = exTask exBuildConfig ''build'' exUtils None"

definition exCoreBuild :: ScheduledTask where
  "exCoreBuild = exTask exBuildConfig ''build'' exCore None"

definition exBuildGraph :: TaskGraph where
  "exBuildGraph =
     exGraph exBuildConfig
       [(''build::packages/utils'', exUtilsBuild), (''build::packages/core'', exCoreBuild)]"

text \<open>A \<^verbatim>\<open>build\<close> task whose cache is \<^verbatim>\<open>'none'\<close>.\<close>

definition exUncachedConfig :: Config where
  "exUncachedConfig = exConfig [(''build'', emptyTask\<lparr>lt_cache := Some ConfigNone\<rparr>)]"

definition exUncachedTask :: ScheduledTask where
  "exUncachedTask = exTask exUncachedConfig ''build'' exUtils None"

definition exUncachedGraph :: TaskGraph where
  "exUncachedGraph = exGraph exUncachedConfig [(''build::packages/utils'', exUncachedTask)]"

text \<open>A \<^verbatim>\<open>build\<close> task that runs after three tasks: \<^verbatim>\<open>codegen\<close>, of which it uses
  neither input nor output, \<^verbatim>\<open>lint\<close>, and the top-level task \<^verbatim>\<open>setup\<close>.  In the first graph
  none of the three has a node; in the second \<^verbatim>\<open>lint\<close> has one, without a cache key.\<close>

definition exAfterConfig :: Config where
  "exAfterConfig =
     exConfig
       [(''build'', emptyTask\<lparr>lt_runsAfter := Some
            [(''codegen'', \<lparr>inheritsInput = None, usesOutput = Some False\<rparr>),
             (''lint'', \<lparr>inheritsInput = Some True, usesOutput = None\<rparr>),
             (''setup'', \<lparr>inheritsInput = Some True, usesOutput = None\<rparr>)]\<rparr>),
        (''setup'', emptyTask\<lparr>lt_runType := Some TopLevel\<rparr>)]"

definition exAfterTask :: ScheduledTask where
  "exAfterTask = exTask exAfterConfig ''build'' exUtils None"

definition exAfterGraph :: TaskGraph where
  "exAfterGraph = exGraph exAfterConfig []"

definition exLintGraph :: TaskGraph where
  "exLintGraph =
     exGraph exAfterConfig [(''lint::packages/utils'', exTask exAfterConfig ''lint'' exUtils None)]"

text \<open>A builder whose previous manifest has the two input files, both with the metadata
  \<^verbatim>\<open>1\<close>: the modification time of the first file on \<open>exDisk\<close>, not of the second.\<close>

definition exPrevious :: "entry list" where
  "exPrevious =
     [\<lparr>e_type = ''file'', e_id = ''package-lock.json'', e_hash = ''old-lock'', e_meta = Some ''1''\<rparr>,
      \<lparr>e_type = ''file'', e_id = ''packages/utils/index.js'', e_hash = ''old-index'',
        e_meta = Some ''1''\<rparr>]"

definition exBuilder :: ManifestConstructor where
  "exBuilder =
     \<lparr>mc_diffPath = ''/repo/packages/utils/.lazy/diffs/build'',
      mc_previousManifestPath = ''/repo/packages/utils/.lazy/manifests/build'',
      mc_nextManifestPath = ''/repo/packages/utils/.lazy/manifests/build.next'',
      mc_previous = Some exPrevious, mc_unread = exPrevious, mc_lines = []\<rparr>"

text \<open>The workspace after \<^verbatim>\<open>packages/utils/index.js\<close> has been deleted, as in the
  integration test \<^verbatim>\<open>deleting an input file causes the task to re-run\<close>: the previous
  manifest has the lock file, the deleted file and \<^verbatim>\<open>packages/utils/package.json\<close>, all
  with the metadata \<^verbatim>\<open>1\<close>; the disk has the lock file and \<^verbatim>\<open>package.json\<close>, both with
  the modification time 1.\<close>

definition exDeletedPrevious :: "entry list" where
  "exDeletedPrevious =
     [\<lparr>e_type = ''file'', e_id = ''package-lock.json'', e_hash = ''old-lock'', e_meta = Some ''1''\<rparr>,
      \<lparr>e_type = ''file'', e_id = ''packages/utils/index.js'', e_hash = ''old-index'',
        e_meta = Some ''1''\<rparr>,
      \<lparr>e_type = ''file'', e_id = ''packages/utils/package.json'', e_hash = ''old-package'',
        e_meta = Some ''1''\<rparr>]"

definition exDeletedDisk :: disk where
  "exDeletedDisk =
     \<lparr>dirs = {},
      files = [''/repo/package-lock.json'' \<mapsto> \<lparr>content = ''{}'', mtimeMs = 1\<rparr>,
               ''/repo/packages/utils/package.json'' \<mapsto> \<lparr>content = ''{}'', mtimeMs = 1\<rparr>],
      manifests = Map.empty,
      diffs = Map.empty\<rparr>"

definition exDeletedBuilder :: ManifestConstructor where
  "exDeletedBuilder = exBuilder\<lparr>mc_previous := Some exDeletedPrevious, mc_unread := exDeletedPrevious\<rparr>"

text \<open>A \<^verbatim>\<open>build\<close> task that names the environment variable \<^verbatim>\<open>toString\<close>.\<close>

definition exInheritedConfig :: Config where
  "exInheritedConfig =
     exConfig [(''build'', emptyTask\<lparr>lt_cache := Some (ConfigCache
        \<lparr>cc_envInputs = Some [''toString''], cc_inheritsInputFromDependencies = None,
         cc_inputs = None, cc_outputs = None, cc_usesOutputFromDependencies = None\<rparr>)\<rparr>)]"

definition exInheritedTask :: ScheduledTask where
  "exInheritedTask = exTask exInheritedConfig ''build'' exUtils None"

definition exInheritedGraph :: TaskGraph where
  "exInheritedGraph = exGraph exInheritedConfig [(''build::packages/utils'', exInheritedTask)]"








text \<open>A host in which the workspace is found, with the task graph and the outcome of
  \<^verbatim>\<open>runAllTasks\<close> as parameters, and a disk with two configuration files in the root.\<close>

definition exHost :: "(Config \<Rightarrow> TaskGraph) \<Rightarrow> (TaskGraph \<Rightarrow> TaskGraph) \<Rightarrow> host" where
  "exHost g ra =
     \<lparr>logger_fail = failAndExit,
      loadConfigObject = (\<lambda>d dir f. Inr (Some emptyConfig)),
      getWorkspaceRoot = (\<lambda>d dir. Some ''/repo''),
      getPackageManager = (\<lambda>d r. Some ''npm''),
      getRepoDetails = (\<lambda>d r. exRepo),
      newTaskGraph = (\<lambda>cfg req. g cfg),
      runAllTasks = (\<lambda>tg d. Return (ra tg, d))\<rparr>"

definition exOptions :: CLIOption where
  "exOptions = \<lparr>opt_filter = None, opt_force = None, opt_extraArgs = None\<rparr>"


text \<open>The graph of the task \<^verbatim>\<open>build\<close> in \<^verbatim>\<open>utils\<close> alone, and the outcome of running it
  with a given status.\<close>

definition exOneTask :: "Config \<Rightarrow> TaskGraph" where
  "exOneTask cfg = exGraph cfg [(''build::packages/utils'', exTask cfg ''build'' exUtils None)]"

definition exEndsAs :: "task_status \<Rightarrow> TaskGraph \<Rightarrow> TaskGraph" where
  "exEndsAs st tg = tg\<lparr>allTasks := map_option (\<lambda>t. t\<lparr>status := st\<rparr>) \<circ> allTasks tg\<rparr>"

text \<open>The configuration that loads from \<open>exDisk\<close>, which has no configuration file.\<close>

definition exLoaded :: Config where
  "exLoaded =
     \<lparr>rootConfig = \<lparr>ld_config = emptyConfig, filePath = None\<rparr>,
      packageDirConfigs = Map.empty, workspaceRoot = ''/repo'', repoDetails = exRepo\<rparr>"


section \<open>Auxiliary notions\<close>






text \<open>A builder after it has been given the entries \<open>es\<close> and is left with the unread lines
  \<open>rest\<close> of the previous manifest.\<close>

definition replayed :: "entry list \<Rightarrow> entry list \<Rightarrow> ManifestConstructor \<Rightarrow> ManifestConstructor" where
  "replayed es rest mc = mc\<lparr>mc_unread := rest, mc_lines := mc_lines mc @ es\<rparr>"







section \<open>Properties\<close>

subsection \<open>Errors and loops\<close>

lemma indexOf_order_values:
  "indexOf order ''upstream task inputs'' = 0"
  "indexOf order ''upstream package inputs'' = -1"
  "indexOf order ''env var'' = 2"
  "indexOf order ''file'' = 3"
  by (simp_all add: order_def types_upstreamTaskInputs_def types_dependencyTaskInputs_def
      types_envVar_def types_file_def)

lemma forEachE_cong:
  "(\<And>x s. f x s = g x s) \<Longrightarrow> forEachE f xs s = forEachE g xs s"
  by (induction xs arbitrary: s) (auto simp: bindE_def split: sum.splits)

lemma bindE_Inl [simp]: "bindE (Inl e) f = Inl e"
  by (simp add: bindE_def)

lemma bindE_Inr [simp]: "bindE (Inr x) f = f x"
  by (simp add: bindE_def)


lemma forEachE_throws:
  "x \<in> set xs \<Longrightarrow> (\<And>s. isl (f x s)) \<Longrightarrow> isl (forEachE f xs s)"
proof (induction xs arbitrary: s)
  case Nil
  then show ?case by simp
next
  case (Cons y ys)
  show ?case
  proof (cases "f y s")
    case (Inl e)
    then show ?thesis by simp
  next
    case (Inr s')
    show ?thesis
    proof (cases "x = y")
      case True
      with Cons.prems(2)[of s] Inr show ?thesis by simp
    next
      case False
      with Cons Inr show ?thesis by simp
    qed
  qed
qed


lemma runsAfterStep_missing_key:
  assumes "truthy (inheritsInput dc)" "runsAfterKey L tg task n = Inr key"
    "allTasks tg key = Some depTask" "cacheKeyOf depTask = None"
  shows "runsAfterStep L tg task (n, dc) st = Inl (MissingInputManifestCacheKey key)"
  using assms by (cases st) (simp add: runsAfterStep_def)

lemma packageInputsStep_missing_key:
  assumes "allTasks tg key = Some depTask" "cacheKeyOf depTask = None"
  shows "packageInputsStep tg key mc = Inl (MissingInputManifestCacheKey key)"
  using assms by (simp add: packageInputsStep_def)

lemma computeManifest_throws:
  assumes "cache (taskConfig task) \<noteq> CacheNone"
    and "\<And>m. isl (upstreamAndEnv L env tg task m)"
  shows "\<exists>e. snd (computeManifest L G env tg task d) = Inl e"
    and "manifests (fst (computeManifest L G env tg task d)) = manifests d"
proof -
  let ?m = "newManifestConstructor (ensureDirs L (taskConfig task) d)
     (getDiffPath L (taskConfig task)) (getManifestPath L (taskConfig task))
     (getNextManifestPath L (taskConfig task))"
  from assms(2)[of ?m] obtain e where e: "upstreamAndEnv L env tg task ?m = Inl e"
    by (cases "upstreamAndEnv L env tg task ?m") auto
  show "\<exists>e. snd (computeManifest L G env tg task d) = Inl e"
    using assms(1) e by (simp add: computeManifest_def Let_def)
  show "manifests (fst (computeManifest L G env tg task d)) = manifests d"
    using assms(1) e by (simp add: computeManifest_def ensureDirs_def Let_def mkdirSync_def)
qed

lemma upstreamAndEnv_throws_runsAfter:
  assumes "(n, dc) \<in> set (runsAfter (taskConfig task))"
    and "\<And>st. isl (runsAfterStep L tg task (n, dc) st)"
  shows "isl (upstreamAndEnv L env tg task m)"
proof -
  have "isl (runsAfterLoop L tg task m)"
    unfolding runsAfterLoop_def using assms by (rule forEachE_throws)
  then show ?thesis
    by (cases "runsAfterLoop L tg task m") (simp_all add: upstreamAndEnv_def)
qed

lemma upstreamAndEnv_throws_package:
  assumes "runType (taskConfig task) \<noteq> Independent"
    and "cacheInheritsInputFromDependencies (cache (taskConfig task))"
    and "upstreamTaskKeys L tg task = Inr (Some ks)" and "key \<in> set ks"
    and "\<And>mc. isl (packageInputsStep tg key mc)"
  shows "isl (upstreamAndEnv L env tg task m)"
proof (cases "runsAfterLoop L tg task m")
  case (Inl e)
  then show ?thesis by (simp add: upstreamAndEnv_def)
next
  case (Inr r)
  obtain mc1 ex where r: "r = (mc1, ex)" by (cases r)
  have "isl (forEachE (packageInputsStep tg) ks mc1)"
    using assms(4,5) by (rule forEachE_throws)
  then have "isl (packageInputsLoop L tg task mc1)"
    using assms(1-3) by (simp add: packageInputsLoop_def)
  then show ?thesis
    using Inr r by (cases "packageInputsLoop L tg task mc1") (simp_all add: upstreamAndEnv_def)
qed


subsection \<open>The rank of the two upstream types\<close>

text \<open>
  C1 (the code at the failing input).  The table \<open>order\<close> holds
  \<^verbatim>\<open>'dependency task inputs'\<close>, a type that computeManifest never supplies, and lacks
  \<^verbatim>\<open>'upstream package inputs'\<close>, the type it does supply: \<open>indexOf\<close> gives that type
  \<open>-1\<close>, so \<open>compareManifestTypes\<close> puts \<^verbatim>\<open>'upstream task inputs'\<close> after
  \<^verbatim>\<open>'upstream package inputs'\<close>, not before it.
\<close>

theorem compareManifestTypes_task_after_package:
  "compareManifestTypes ''upstream task inputs'' ''upstream package inputs'' = 1"
  by (simp add: compareManifestTypes_def indexOf_order_values)

subsection \<open>A task whose cache is \<^verbatim>\<open>'none'\<close>\<close>

text \<open>
  C3.  For a task whose cache is \<^verbatim>\<open>'none'\<close>, computeManifest returns \<^verbatim>\<open>null\<close> and the disk
  is the one it was given: no directory is made, no manifest, \<^verbatim>\<open>.next\<close> or diff file is
  written, and no builder has read or written anything.  The scheduler's step then spawns
  the task's command on that very disk, and the task does not end as \<^verbatim>\<open>success:lazy\<close>.
\<close>

theorem cache_none_writes_nothing_and_runs:
  assumes "cache (taskConfig task) = CacheNone"
  shows "computeManifest L G env tg task d = (d, Inr None)
     \<and> (\<exists>tr. runTask L R tg task d = (snd (spawnCommand R task d), Inr tr)
            \<and> spawned tr \<and> status (ranTask tr) \<noteq> SuccessLazy)"
proof -
  have cm: "computeManifest L G env tg task d = (d, Inr None)" for G env
    using assms by (simp add: computeManifest_def)
  show ?thesis
    by (cases "spawnCommand R task d") (simp add: cm runTask_def Let_def)
qed


theorem cache_none_witness:
  "cache (taskConfig exUncachedTask) = CacheNone
   \<and> computeManifest exLib exInputFiles [''CI'' \<mapsto> ''true''] exUncachedGraph exUncachedTask exDisk
       = (exDisk, Inr None)
   \<and> (\<exists>tr. runTask exLib exRunner exUncachedGraph exUncachedTask exDisk = (exDisk, Inr tr)
          \<and> spawned tr \<and> status (ranTask tr) \<noteq> SuccessLazy)"
proof -
  have h: "cache (taskConfig exUncachedTask) = CacheNone"
    by code_simp
  from cache_none_writes_nothing_and_runs[OF h, where L = exLib and G = exInputFiles
      and env = "[''CI'' \<mapsto> ''true'']" and tg = exUncachedGraph and d = exDisk and R = exRunner]
  show ?thesis
    using h by (simp add: exRunner_def)
qed


subsection \<open>A \<^verbatim>\<open>runsAfter\<close> entry whose task has no node\<close>

text \<open>
  C10.  One pass of the loop over \<^verbatim>\<open>runsAfter\<close>, for the entry \<open>(n, dc)\<close>.  An entry with a
  falsy \<^verbatim>\<open>inheritsInput\<close> and \<^verbatim>\<open>usesOutput === false\<close> leaves the builder and
  \<^verbatim>\<open>extraFiles\<close> as they are, whatever the configuration and the graph (no key is computed,
  nothing is looked up).  For any other entry whose key has no node in \<^verbatim>\<open>allTasks\<close>: if the
  named task is top-level the pass throws \<^verbatim>\<open>Missing task\<close>, and computeManifest throws for a
  task with a cache; if it is not top-level the pass leaves the builder and \<^verbatim>\<open>extraFiles\<close>
  as they are and throws nothing.
\<close>

theorem runsAfter_missing_node:
  "(\<not> truthy (inheritsInput dc) \<and> usesOutput dc = Some False
      \<longrightarrow> runsAfterStep L tg task (n, dc) (mc, ex) = Inr (mc, ex))
   \<and> (\<not> (\<not> truthy (inheritsInput dc) \<and> usesOutput dc = Some False)
        \<and> runsAfterKey L tg task n = Inr key \<and> allTasks tg key = None \<and> isTopLevel tg task n
      \<longrightarrow> runsAfterStep L tg task (n, dc) (mc, ex) = Inl (MissingTask key)
          \<and> ((n, dc) \<in> set (runsAfter (taskConfig task)) \<and> cache (taskConfig task) \<noteq> CacheNone
               \<longrightarrow> (\<exists>e. snd (computeManifest L G env tg task d) = Inl e)))
   \<and> (\<not> (\<not> truthy (inheritsInput dc) \<and> usesOutput dc = Some False)
        \<and> runsAfterKey L tg task n = Inr key \<and> allTasks tg key = None \<and> \<not> isTopLevel tg task n
      \<longrightarrow> runsAfterStep L tg task (n, dc) (mc, ex) = Inr (mc, ex))"
proof (intro conjI impI)
  assume "\<not> truthy (inheritsInput dc) \<and> usesOutput dc = Some False"
  then show "runsAfterStep L tg task (n, dc) (mc, ex) = Inr (mc, ex)"
    by (simp add: runsAfterStep_def)
next
  assume a: "\<not> (\<not> truthy (inheritsInput dc) \<and> usesOutput dc = Some False)
        \<and> runsAfterKey L tg task n = Inr key \<and> allTasks tg key = None \<and> isTopLevel tg task n"
  then have step: "runsAfterStep L tg task (n, dc) st = Inl (MissingTask key)" for st
    by (cases st) (simp add: runsAfterStep_def)
  from step show "runsAfterStep L tg task (n, dc) (mc, ex) = Inl (MissingTask key)" .
  assume b: "(n, dc) \<in> set (runsAfter (taskConfig task)) \<and> cache (taskConfig task) \<noteq> CacheNone"
  have "isl (upstreamAndEnv L env tg task m)" for m
    using b step by (intro upstreamAndEnv_throws_runsAfter[of n dc]) simp_all
  with b show "\<exists>e. snd (computeManifest L G env tg task d) = Inl e"
    by (intro computeManifest_throws(1)) simp_all
next
  assume "\<not> (\<not> truthy (inheritsInput dc) \<and> usesOutput dc = Some False)
        \<and> runsAfterKey L tg task n = Inr key \<and> allTasks tg key = None \<and> \<not> isTopLevel tg task n"
  then show "runsAfterStep L tg task (n, dc) (mc, ex) = Inr (mc, ex)"
    by (simp add: runsAfterStep_def)
qed

theorem runsAfter_missing_node_witness:
  "runsAfterStep exLib exAfterGraph exAfterTask
       (''codegen'', \<lparr>inheritsInput = None, usesOutput = Some False\<rparr>) (exBuilder, [])
     = Inr (exBuilder, [])
   \<and> runsAfterKey exLib exAfterGraph (exAfterTask\<lparr>taskDir := ''packages/utils''\<rparr>) ''codegen''
     = Inl (TaskDirNotAbsolute ''packages/utils'')
   \<and> runsAfterStep exLib exAfterGraph (exAfterTask\<lparr>taskDir := ''packages/utils''\<rparr>)
       (''codegen'', \<lparr>inheritsInput = None, usesOutput = Some False\<rparr>) (exBuilder, [])
     = Inr (exBuilder, [])
   \<and> isTopLevel exAfterGraph exAfterTask ''setup''
   \<and> allTasks exAfterGraph ''setup::<rootDir>'' = None
   \<and> runsAfterStep exLib exAfterGraph exAfterTask
       (''setup'', \<lparr>inheritsInput = Some True, usesOutput = None\<rparr>) (exBuilder, [])
     = Inl (MissingTask ''setup::<rootDir>'')
   \<and> (\<exists>e. snd (computeManifest exLib exInputFiles Map.empty exAfterGraph exAfterTask exDisk) = Inl e)
   \<and> \<not> isTopLevel exAfterGraph exAfterTask ''lint''
   \<and> allTasks exAfterGraph ''lint::packages/utils'' = None
   \<and> runsAfterStep exLib exAfterGraph exAfterTask
       (''lint'', \<lparr>inheritsInput = Some True, usesOutput = None\<rparr>) (exBuilder, [])
     = Inr (exBuilder, [])"
proof -
  let ?skip = "\<lparr>inheritsInput = None, usesOutput = Some False\<rparr>"
  let ?inherit = "\<lparr>inheritsInput = Some True, usesOutput = None\<rparr>"
  have s: "\<not> truthy (inheritsInput ?skip) \<and> usesOutput ?skip = Some False"
    by (simp add: truthy_def)
  have k: "runsAfterKey exLib exAfterGraph (exAfterTask\<lparr>taskDir := ''packages/utils''\<rparr>) ''codegen''
     = Inl (TaskDirNotAbsolute ''packages/utils'')"
    by code_simp
  have top: "\<not> (\<not> truthy (inheritsInput ?inherit) \<and> usesOutput ?inherit = Some False)
      \<and> runsAfterKey exLib exAfterGraph exAfterTask ''setup'' = Inr ''setup::<rootDir>''
      \<and> allTasks exAfterGraph ''setup::<rootDir>'' = None
      \<and> isTopLevel exAfterGraph exAfterTask ''setup''"
    by code_simp
  have mem: "(''setup'', ?inherit) \<in> set (runsAfter (taskConfig exAfterTask))
      \<and> cache (taskConfig exAfterTask) \<noteq> CacheNone"
    by code_simp
  have low: "\<not> (\<not> truthy (inheritsInput ?inherit) \<and> usesOutput ?inherit = Some False)
      \<and> runsAfterKey exLib exAfterGraph exAfterTask ''lint'' = Inr ''lint::packages/utils''
      \<and> allTasks exAfterGraph ''lint::packages/utils'' = None
      \<and> \<not> isTopLevel exAfterGraph exAfterTask ''lint''"
    by code_simp
  note t = runsAfter_missing_node
  from t[THEN conjunct1, rule_format, OF s] 
    t[THEN conjunct2, THEN conjunct1, rule_format, OF top]
    t[THEN conjunct2, THEN conjunct2, rule_format, OF low]
  show ?thesis
    using k top mem low by blast
qed

subsection \<open>An upstream task without a cache key\<close>

text \<open>
  C4.  For a task with a cache: if an entry of \<^verbatim>\<open>runsAfter\<close> with a truthy
  \<^verbatim>\<open>inheritsInput\<close> names a task that is in the graph and has no (or an empty)
  \<^verbatim>\<open>inputManifestCacheKey\<close>, or if the task inherits the input of its package dependencies
  and one of the upstream keys is of a task in the graph that has none, then computeManifest
  throws, and it leaves every manifest file as it was.
\<close>

theorem missing_upstream_key_throws:
  assumes "cache (taskConfig task) \<noteq> CacheNone"
    and "(\<exists>n dc key depTask. (n, dc) \<in> set (runsAfter (taskConfig task))
            \<and> truthy (inheritsInput dc) \<and> runsAfterKey L tg task n = Inr key
            \<and> allTasks tg key = Some depTask \<and> cacheKeyOf depTask = None)
         \<or> (runType (taskConfig task) \<noteq> Independent
            \<and> cacheInheritsInputFromDependencies (cache (taskConfig task))
            \<and> (\<exists>ks key depTask. upstreamTaskKeys L tg task = Inr (Some ks) \<and> key \<in> set ks
                  \<and> allTasks tg key = Some depTask \<and> cacheKeyOf depTask = None))"
  shows "(\<exists>e. snd (computeManifest L G env tg task d) = Inl e)
         \<and> manifests (fst (computeManifest L G env tg task d)) = manifests d"
proof -
  have "isl (upstreamAndEnv L env tg task m)" for m
    using assms(2)
  proof (elim disjE exE conjE)
    fix n dc key depTask
    assume "(n, dc) \<in> set (runsAfter (taskConfig task))" "truthy (inheritsInput dc)"
      "runsAfterKey L tg task n = Inr key" "allTasks tg key = Some depTask"
      "cacheKeyOf depTask = None"
    then show ?thesis
      by (intro upstreamAndEnv_throws_runsAfter[of n dc]) (simp_all add: runsAfterStep_missing_key)
  next
    fix ks key depTask
    assume "runType (taskConfig task) \<noteq> Independent"
      "cacheInheritsInputFromDependencies (cache (taskConfig task))"
      "upstreamTaskKeys L tg task = Inr (Some ks)" "key \<in> set ks"
      "allTasks tg key = Some depTask" "cacheKeyOf depTask = None"
    then show ?thesis
      by (intro upstreamAndEnv_throws_package[of task L tg ks key])
         (simp_all add: packageInputsStep_missing_key)
  qed
  with assms(1) show ?thesis
    using computeManifest_throws[of task L env tg G d] by blast
qed

theorem missing_upstream_key_throws_witness:
  "allTasks exLintGraph ''lint::packages/utils'' = Some (exTask exAfterConfig ''lint'' exUtils None)
   \<and> cacheKeyOf (exTask exAfterConfig ''lint'' exUtils None) = None
   \<and> (\<exists>e. snd (computeManifest exLib exInputFiles Map.empty exLintGraph exAfterTask exDisk) = Inl e)
   \<and> manifests (fst (computeManifest exLib exInputFiles Map.empty exLintGraph exAfterTask exDisk))
       = manifests exDisk
   \<and> upstreamTaskKeys exLib exBuildGraph exCoreBuild = Inr (Some [''build::packages/utils''])
   \<and> allTasks exBuildGraph ''build::packages/utils'' = Some exUtilsBuild
   \<and> cacheKeyOf exUtilsBuild = None
   \<and> (\<exists>e. snd (computeManifest exLib exInputFiles Map.empty exBuildGraph exCoreBuild exDisk) = Inl e)
   \<and> manifests (fst (computeManifest exLib exInputFiles Map.empty exBuildGraph exCoreBuild exDisk))
       = manifests exDisk"
proof -
  let ?inherit = "\<lparr>inheritsInput = Some True, usesOutput = None\<rparr>"
  let ?lint = "exTask exAfterConfig ''lint'' exUtils None"
  have c1: "cache (taskConfig exAfterTask) \<noteq> CacheNone"
    by code_simp
  have a: "(''lint'', ?inherit) \<in> set (runsAfter (taskConfig exAfterTask))
      \<and> truthy (inheritsInput ?inherit)
      \<and> runsAfterKey exLib exLintGraph exAfterTask ''lint'' = Inr ''lint::packages/utils''
      \<and> allTasks exLintGraph ''lint::packages/utils'' = Some ?lint
      \<and> cacheKeyOf ?lint = None"
    by code_simp
  have c2: "cache (taskConfig exCoreBuild) \<noteq> CacheNone"
    by code_simp
  have b: "runType (taskConfig exCoreBuild) \<noteq> Independent
      \<and> cacheInheritsInputFromDependencies (cache (taskConfig exCoreBuild))
      \<and> upstreamTaskKeys exLib exBuildGraph exCoreBuild = Inr (Some [''build::packages/utils''])
      \<and> ''build::packages/utils'' \<in> set [''build::packages/utils'']
      \<and> allTasks exBuildGraph ''build::packages/utils'' = Some exUtilsBuild
      \<and> cacheKeyOf exUtilsBuild = None"
    by code_simp
  from a have A: "(\<exists>n dc key depTask. (n, dc) \<in> set (runsAfter (taskConfig exAfterTask))
            \<and> truthy (inheritsInput dc) \<and> runsAfterKey exLib exLintGraph exAfterTask n = Inr key
            \<and> allTasks exLintGraph key = Some depTask \<and> cacheKeyOf depTask = None)
         \<or> (runType (taskConfig exAfterTask) \<noteq> Independent
            \<and> cacheInheritsInputFromDependencies (cache (taskConfig exAfterTask))
            \<and> (\<exists>ks key depTask. upstreamTaskKeys exLib exLintGraph exAfterTask = Inr (Some ks) \<and> key \<in> set ks
                  \<and> allTasks exLintGraph key = Some depTask \<and> cacheKeyOf depTask = None))"
    by blast
  from b have B: "(\<exists>n dc key depTask. (n, dc) \<in> set (runsAfter (taskConfig exCoreBuild))
            \<and> truthy (inheritsInput dc) \<and> runsAfterKey exLib exBuildGraph exCoreBuild n = Inr key
            \<and> allTasks exBuildGraph key = Some depTask \<and> cacheKeyOf depTask = None)
         \<or> (runType (taskConfig exCoreBuild) \<noteq> Independent
            \<and> cacheInheritsInputFromDependencies (cache (taskConfig exCoreBuild))
            \<and> (\<exists>ks key depTask. upstreamTaskKeys exLib exBuildGraph exCoreBuild = Inr (Some ks) \<and> key \<in> set ks
                  \<and> allTasks exBuildGraph key = Some depTask \<and> cacheKeyOf depTask = None))"
    by blast
  from missing_upstream_key_throws[OF c1 A, where G = exInputFiles and env = Map.empty and d = exDisk]
    missing_upstream_key_throws[OF c2 B, where G = exInputFiles and env = Map.empty and d = exDisk]
  show ?thesis
    using a b by blast
qed


subsection \<open>An environment variable that is not set\<close>

text \<open>
  C9 (the code at the failing input).  For the name \<^verbatim>\<open>toString\<close>, which is not set and
  which \<^verbatim>\<open>Object.prototype\<close> defines, \<^verbatim>\<open>process.env[envVar] ?? ''\<close> is the inherited
  function and not the empty string: what is hashed is that member, whatever \<open>hashString\<close>
  does with it, while for the variable set to the empty string it is the empty string.  With
  a \<open>hashString\<close> that throws a TypeError for an argument that is not a string, the unset
  variable gives the error and the empty one gives the hash of the empty string.
\<close>

theorem unset_inherited_name:
  "envVarHash L Map.empty ''toString'' = hashInherited L ''toString''
   \<and> envVarHash L [''toString'' \<mapsto> []] ''toString'' = Inr (hashString L [])
   \<and> envVarHash exLib Map.empty ''toString'' = Inl TypeError
   \<and> envVarHash exLib [''toString'' \<mapsto> []] ''toString'' = Inr ''sha:''"
  by (simp add: envVarHash_def processEnvGet_def objectPrototypeNames_def hashStringOf_def exLib_def)

text \<open>
  C6 (the code at the failing input).  The task \<^verbatim>\<open>build\<close> of \<open>exInheritedGraph\<close> names the
  environment variable \<^verbatim>\<open>toString\<close>; with the base configuration's names, the sorted list
  without duplicates is \<^verbatim>\<open>CI\<close>, \<^verbatim>\<open>NODE_ENV\<close>, \<^verbatim>\<open>toString\<close>.  In an environment that sets
  \<^verbatim>\<open>CI\<close> alone, the hash supplied for \<^verbatim>\<open>NODE_ENV\<close> is the hash of the empty string, and
  the one for \<^verbatim>\<open>toString\<close>, which is not set either, is not: \<open>hashString\<close> is applied to the
  member of \<^verbatim>\<open>Object.prototype\<close>, and here it throws.
\<close>

theorem env_var_inherited_name:
  "allEnvVars exInheritedGraph exInheritedTask = [''CI'', ''NODE_ENV'', ''toString'']
   \<and> map (envVarHash exLib [''CI'' \<mapsto> ''true'']) (allEnvVars exInheritedGraph exInheritedTask)
       = [Inr ''sha:true'', Inr ''sha:'', Inl TypeError]
   \<and> hashString exLib [] = ''sha:''
   \<and> envVarHash L [''CI'' \<mapsto> ''true''] ''toString'' = hashInherited L ''toString''"
proof -
  have 1: "allEnvVars exInheritedGraph exInheritedTask = [''CI'', ''NODE_ENV'', ''toString'']"
    by code_simp
  have 2: "map (envVarHash exLib [''CI'' \<mapsto> ''true'']) [''CI'', ''NODE_ENV'', ''toString'']
       = [Inr ''sha:true'', Inr ''sha:'', Inl TypeError]"
    by code_simp
  have 3: "envVarHash L [''CI'' \<mapsto> ''true''] ''toString'' = hashInherited L ''toString''"
    by (simp add: envVarHash_def processEnvGet_def objectPrototypeNames_def hashStringOf_def)
  show ?thesis
    using 2 3 by (simp add: 1 exLib_def)
qed

subsection \<open>The loop over the input files\<close>

lemma rank_values:
  "indexOf canonicalOrder ''upstream task inputs'' = 0"
  "indexOf canonicalOrder ''upstream package inputs'' = 1"
  "indexOf canonicalOrder ''env var'' = 2"
  "indexOf canonicalOrder ''file'' = 3"
  by (simp_all add: canonicalOrder_def)

lemma entryBefore_files:
  "e_type a = ''file'' \<Longrightarrow> e_type b = ''file'' \<Longrightarrow> entryBefore a b \<longleftrightarrow> e_id a < e_id b"
  by (simp add: entryBefore_def Let_def)

lemma entryBefore_file:
  assumes "e_type a \<in> {''upstream task inputs'', ''upstream package inputs'', ''env var''}"
    "e_type b = ''file''"
  shows "entryBefore a b"
  using assms by (auto simp: entryBefore_def Let_def rank_values)

lemma fileStep_walk:
  assumes st: "files d (path_join L (workspaceRoot (config tg)) x) = Some st"
    and ord: "mc_lines mc = [] \<or> entryBefore (last (mc_lines mc)) (fileEntryAt L (mc_unread mc) x st)"
  shows "fileStep L tg d x (mc, sk, h)
     = Inr (mc\<lparr>mc_unread := passPrevious (fileEntryAt L (mc_unread mc) x st) (mc_unread mc),
               mc_lines := mc_lines mc @ [fileEntryAt L (mc_unread mc) x st]\<rparr>,
            sk + (if nextIsSame L (mc_unread mc) x st then 1 else 0),
            h + (if nextIsSame L (mc_unread mc) x st then 0 else 1))"
proof (cases "nextIsSame L (mc_unread mc) x st")
  case True
  then obtain p ps where u: "mc_unread mc = p # ps" "e_type p = ''file''" "e_id p = x"
    "e_meta p = Some (js_String L (mtimeMs st))"
    by (auto simp: nextIsSame_def split: list.splits)
  have e: "fileEntryAt L (mc_unread mc) x st
      = \<lparr>e_type = ''file'', e_id = x, e_hash = e_hash p, e_meta = Some (js_String L (mtimeMs st))\<rparr>"
    using True by (simp add: fileEntryAt_def u)
  show ?thesis
    using ord True unfolding e
    by (auto simp: fileStep_def statSync_def st Let_def mc_copyLineOverIfMetaIsSame_def u
        mc_update_def)
next
  case False
  have e: "fileEntryAt L (mc_unread mc) x st
      = \<lparr>e_type = ''file'', e_id = x, e_hash = hashFile L (content st) (length (content st)),
         e_meta = Some (js_String L (mtimeMs st))\<rparr>"
    using False by (simp add: fileEntryAt_def)
  have c: "mc_copyLineOverIfMetaIsSame mc ''file'' x (js_String L (mtimeMs st)) = Inr (False, mc)"
    using False by (auto simp: mc_copyLineOverIfMetaIsSame_def nextIsSame_def split: list.splits)
  show ?thesis
    using ord False unfolding e
    by (auto simp: fileStep_def statSync_def st Let_def c mc_update_def)
qed

lemma fileSteps_walk:
  assumes "sorted xs" "distinct xs"
    and "\<forall>f\<in>set xs. files d (path_join L (workspaceRoot (config tg)) f) \<noteq> None"
    and "mc_lines mc = [] \<or> (\<forall>x\<in>set xs. \<forall>e. e_type e = ''file'' \<and> e_id e = x
            \<longrightarrow> entryBefore (last (mc_lines mc)) e)"
  shows "\<exists>mc'. forEachE (fileStep L tg d) xs (mc, sk, h)
       = Inr (mc',
              sk + length (filter fst (fileWalk L
                  (\<lambda>f. the (files d (path_join L (workspaceRoot (config tg)) f))) (mc_unread mc) xs)),
              h + length (filter (\<lambda>w. \<not> fst w) (fileWalk L
                  (\<lambda>f. the (files d (path_join L (workspaceRoot (config tg)) f))) (mc_unread mc) xs)))
     \<and> mc_lines mc' = mc_lines mc @ map snd (fileWalk L
                  (\<lambda>f. the (files d (path_join L (workspaceRoot (config tg)) f))) (mc_unread mc) xs)"
  using assms
proof (induction xs arbitrary: mc sk h)
  case Nil
  then show ?case by simp
next
  case (Cons x xs)
  let ?stat = "\<lambda>f. the (files d (path_join L (workspaceRoot (config tg)) f))"
  let ?e = "fileEntryAt L (mc_unread mc) x (?stat x)"
  from Cons.prems(3) obtain st where st: "files d (path_join L (workspaceRoot (config tg)) x) = Some st"
    by auto
  then have sx: "?stat x = st" by simp
  have et: "e_type ?e = ''file''" "e_id ?e = x" by (simp_all add: fileEntryAt_def)
  have ord: "mc_lines mc = [] \<or> entryBefore (last (mc_lines mc)) (fileEntryAt L (mc_unread mc) x st)"
    using Cons.prems(4) et sx by auto
  let ?mc1 = "mc\<lparr>mc_unread := passPrevious (fileEntryAt L (mc_unread mc) x st) (mc_unread mc),
               mc_lines := mc_lines mc @ [fileEntryAt L (mc_unread mc) x st]\<rparr>"
  note step = fileStep_walk[OF st ord, of sk h]
  have next_ok: "mc_lines ?mc1 = [] \<or> (\<forall>y\<in>set xs. \<forall>e. e_type e = ''file'' \<and> e_id e = y
            \<longrightarrow> entryBefore (last (mc_lines ?mc1)) e)"
  proof (intro disjI2 ballI allI impI)
    fix y and e :: entry
    assume y: "y \<in> set xs" and e: "e_type e = ''file'' \<and> e_id e = y"
    from Cons.prems(1,2) y have "x < y" by (auto simp: less_le)
    with e et sx show "entryBefore (last (mc_lines ?mc1)) e"
      by (simp add: entryBefore_files)
  qed
  from Cons.prems have "sorted xs" "distinct xs"
    "\<forall>f\<in>set xs. files d (path_join L (workspaceRoot (config tg)) f) \<noteq> None"
    by simp_all
  from Cons.IH[OF this next_ok] obtain mc' where
    rest: "forEachE (fileStep L tg d) xs
        (?mc1, sk + (if nextIsSame L (mc_unread mc) x st then 1 else 0),
               h + (if nextIsSame L (mc_unread mc) x st then 0 else 1))
       = Inr (mc',
              (sk + (if nextIsSame L (mc_unread mc) x st then 1 else 0))
                + length (filter fst (fileWalk L ?stat (mc_unread ?mc1) xs)),
              (h + (if nextIsSame L (mc_unread mc) x st then 0 else 1))
                + length (filter (\<lambda>w. \<not> fst w) (fileWalk L ?stat (mc_unread ?mc1) xs)))"
    and lines: "mc_lines mc' = mc_lines ?mc1 @ map snd (fileWalk L ?stat (mc_unread ?mc1) xs)"
    by blast
  show ?case
    by (rule exI[of _ mc']) (simp add: step rest lines sx)
qed

text \<open>
  C5 (counterexample).  The workspace after \<^verbatim>\<open>packages/utils/index.js\<close> has been deleted.
  The previous manifest has a \<^verbatim>\<open>file\<close> entry of \<^verbatim>\<open>packages/utils/package.json\<close> whose
  metadata is the file's \<^verbatim>\<open>mtimeMs\<close> as a string (\<open>metaIsSame\<close>), and yet the file is hashed
  again: its entry carries the hash of the content, not the hash \<^verbatim>\<open>old-package\<close> of the
  previous entry, and the loop counts one file skipped and one hashed.  The line of the
  deleted file is still unread when the fast path is tried.
\<close>

theorem unchanged_file_after_deleted_is_hashed:
  "files exDeletedDisk ''/repo/packages/utils/package.json'' = Some \<lparr>content = ''{}'', mtimeMs = 1\<rparr>
   \<and> metaIsSame exLib (mc_previous exDeletedBuilder) ''packages/utils/package.json''
         \<lparr>content = ''{}'', mtimeMs = 1\<rparr>
   \<and> fileLoop exLib exBuildGraph exDeletedDisk
         [''package-lock.json'', ''packages/utils/package.json''] exDeletedBuilder
       = Inr (exDeletedBuilder\<lparr>mc_unread := [], mc_lines :=
           [\<lparr>e_type = ''file'', e_id = ''package-lock.json'', e_hash = ''old-lock'', e_meta = Some ''1''\<rparr>,
            \<lparr>e_type = ''file'', e_id = ''packages/utils/package.json'', e_hash = ''sha:{}'',
              e_meta = Some ''1''\<rparr>]\<rparr>, 1, 1)"
  by code_simp

text \<open>
  C5 (amended).  For a list of input files without duplicates, all of which exist, and a
  builder that holds no \<^verbatim>\<open>file\<close> entry yet, the loop over the input files comes to its
  end, and it treats the files in sorted order as \<open>fileWalk\<close> says: a file is on the fast path
  when the next unread line of the previous manifest is a \<^verbatim>\<open>file\<close> entry of the same path
  whose metadata is the file's \<^verbatim>\<open>mtimeMs\<close> as a string (\<open>nextIsSame\<close>); its entry then
  carries the hash of that line and the file is counted as skipped; otherwise its entry
  carries the hash of the file's content, with the \<^verbatim>\<open>mtimeMs\<close> as metadata, and the file is
  counted as hashed.  An entry passes the lines of the previous manifest that come before
  it and the line of its own path (\<open>passPrevious\<close>).
\<close>

theorem fileLoop_next_unread:
  assumes "distinct fs"
    and "\<forall>f\<in>set fs. files d (path_join L (workspaceRoot (config tg)) f) \<noteq> None"
    and "\<forall>e\<in>set (mc_lines mc).
           e_type e \<in> {''upstream task inputs'', ''upstream package inputs'', ''env var''}"
  shows "\<exists>mc'. fileLoop L tg d fs mc
       = Inr (mc',
              length (filter fst (fileWalk L
                  (\<lambda>f. the (files d (path_join L (workspaceRoot (config tg)) f))) (mc_unread mc) (sort fs))),
              length (filter (\<lambda>w. \<not> fst w) (fileWalk L
                  (\<lambda>f. the (files d (path_join L (workspaceRoot (config tg)) f))) (mc_unread mc) (sort fs))))
     \<and> mc_lines mc' = mc_lines mc @ map snd (fileWalk L
                  (\<lambda>f. the (files d (path_join L (workspaceRoot (config tg)) f))) (mc_unread mc) (sort fs))"
proof -
  have "mc_lines mc = [] \<or> (\<forall>x\<in>set (sort fs). \<forall>e. e_type e = ''file'' \<and> e_id e = x
            \<longrightarrow> entryBefore (last (mc_lines mc)) e)"
  proof (cases "mc_lines mc = []")
    case False
    then have "last (mc_lines mc) \<in> set (mc_lines mc)" by simp
    with assms(3) have "e_type (last (mc_lines mc))
        \<in> {''upstream task inputs'', ''upstream package inputs'', ''env var''}"
      by blast
    then show ?thesis by (blast intro: entryBefore_file)
  qed simp
  from fileSteps_walk[of "sort fs" d L tg mc 0 0, OF _ _ _ this] assms(1,2)
  show ?thesis by (simp add: fileLoop_def)
qed

theorem fileLoop_next_unread_witness:
  "distinct [''packages/utils/index.js'', ''package-lock.json'']
   \<and> files exDisk ''/repo/package-lock.json'' = Some \<lparr>content = ''{}'', mtimeMs = 1\<rparr>
   \<and> files exDisk ''/repo/packages/utils/index.js'' = Some \<lparr>content = ''hello'', mtimeMs = 2\<rparr>
   \<and> mc_lines exBuilder = []
   \<and> fileWalk exLib (\<lambda>f. the (files exDisk (''/repo/'' @ f))) exPrevious
        [''package-lock.json'', ''packages/utils/index.js'']
      = [(True, \<lparr>e_type = ''file'', e_id = ''package-lock.json'', e_hash = ''old-lock'',
                  e_meta = Some ''1''\<rparr>),
         (False, \<lparr>e_type = ''file'', e_id = ''packages/utils/index.js'', e_hash = ''sha:hello'',
                   e_meta = Some ''2''\<rparr>)]
   \<and> (\<exists>mc'. fileLoop exLib exBuildGraph exDisk [''packages/utils/index.js'', ''package-lock.json'']
                exBuilder = Inr (mc', 1, 1)
          \<and> mc_lines mc'
             = [\<lparr>e_type = ''file'', e_id = ''package-lock.json'', e_hash = ''old-lock'',
                  e_meta = Some ''1''\<rparr>,
                \<lparr>e_type = ''file'', e_id = ''packages/utils/index.js'', e_hash = ''sha:hello'',
                  e_meta = Some ''2''\<rparr>])"
proof -
  let ?fs = "[''packages/utils/index.js'', ''package-lock.json'']"
  have h1: "distinct ?fs" by simp
  have h2: "\<forall>f\<in>set ?fs. files exDisk (path_join exLib (workspaceRoot (config exBuildGraph)) f) \<noteq> None"
    by (simp add: exLib_def exBuildGraph_def exGraph_def exBuildConfig_def exConfig_def exDisk_def)
  have h3: "\<forall>e\<in>set (mc_lines exBuilder).
      e_type e \<in> {''upstream task inputs'', ''upstream package inputs'', ''env var''}"
    by (simp add: exBuilder_def)
  have e: "sort ?fs = [''package-lock.json'', ''packages/utils/index.js'']"
    "mc_unread exBuilder = exPrevious" "mc_lines exBuilder = []"
    "path_join exLib (workspaceRoot (config exBuildGraph)) = (\<lambda>f. ''/repo/'' @ f)"
    "files exDisk ''/repo/package-lock.json'' = Some \<lparr>content = ''{}'', mtimeMs = 1\<rparr>"
    "files exDisk ''/repo/packages/utils/index.js'' = Some \<lparr>content = ''hello'', mtimeMs = 2\<rparr>"
    by (simp_all add: exLib_def exBuildGraph_def exGraph_def exBuildConfig_def exConfig_def
        exBuilder_def exDisk_def fun_eq_iff)
  have w: "fileWalk exLib (\<lambda>f. the (files exDisk (''/repo/'' @ f))) exPrevious
        [''package-lock.json'', ''packages/utils/index.js'']
      = [(True, \<lparr>e_type = ''file'', e_id = ''package-lock.json'', e_hash = ''old-lock'',
                  e_meta = Some ''1''\<rparr>),
         (False, \<lparr>e_type = ''file'', e_id = ''packages/utils/index.js'', e_hash = ''sha:hello'',
                   e_meta = Some ''2''\<rparr>)]"
    by code_simp
  from fileLoop_next_unread[OF h1 h2 h3, unfolded e w] obtain mc' where
    "fileLoop exLib exBuildGraph exDisk ?fs exBuilder = Inr (mc', 1, 1)"
    "mc_lines mc'
       = [\<lparr>e_type = ''file'', e_id = ''package-lock.json'', e_hash = ''old-lock'',
            e_meta = Some ''1''\<rparr>,
          \<lparr>e_type = ''file'', e_id = ''packages/utils/index.js'', e_hash = ''sha:hello'',
            e_meta = Some ''2''\<rparr>]"
    by auto
  with h1 e(3,5,6) w show ?thesis by blast
qed

subsection \<open>Building a manifest again\<close>







lemma replayed_sel [simp]:
  "mc_lines (replayed es rest mc) = mc_lines mc @ es"
  "mc_unread (replayed es rest mc) = rest"
  "mc_previous (replayed es rest mc) = mc_previous mc"
  "mc_previousManifestPath (replayed es rest mc) = mc_previousManifestPath mc"
  "mc_nextManifestPath (replayed es rest mc) = mc_nextManifestPath mc"
  "mc_diffPath (replayed es rest mc) = mc_diffPath mc"
  by (simp_all add: replayed_def)
















lemma ensureDirs_manifests [simp]: "manifests (ensureDirs L tc d) = manifests d"
  by (simp add: ensureDirs_def Let_def mkdirSync_def)

lemma ensureDirs_files [simp]: "files (ensureDirs L tc d) = files d"
  by (simp add: ensureDirs_def Let_def mkdirSync_def)













subsection \<open>Running the graph again\<close>




lemma forEachE_cong2:
  "(\<And>x s. f x s = g x s) \<Longrightarrow> forEachE f xs = forEachE g xs"
  by (rule ext) (rule forEachE_cong)





























subsection \<open>Configuration files and the run command\<close>

lemma bindP_simps [simp]:
  "bindP (Return x) f = f x" "bindP (Throw e) f = Throw e" "bindP (Exit c) f = Exit c"
  by (simp_all add: bindP_def)











subsection \<open>More than one configuration file in a directory\<close>



lemma exDisk_no_config: "configFiles exLib exDisk dir = []"
  by (simp add: configFiles_def exLib_def exDisk_def)

lemma exHost_Config_from: "Config_from exLib (exHost g ra) exDisk ''/repo'' = Return exLoaded"
  by (simp add: Config_from_def getConfigFromDir_def exDisk_no_config exHost_def exLoaded_def
      exRepo_def bindP_def)



subsection \<open>The exit code of \<^verbatim>\<open>run\<close>\<close>

text \<open>
  C7.  With the \<^verbatim>\<open>logger.fail\<close> of the spec (report and exit non-zero), once the
  configuration has loaded: when no task matches the requested name the exit code is not 0;
  when some task is scheduled and every task ends as \<^verbatim>\<open>success:eager\<close> or \<^verbatim>\<open>success:lazy\<close>
  (all of them lazy included) the exit code is 0; when some task ends as \<^verbatim>\<open>failure\<close> the
  exit code is not 0.
\<close>

theorem run_exit_code:
  assumes cfg: "Config_from L H d cwd = Return cfg"
    and fail: "logger_fail H = failAndExit"
  shows "(sortedTaskKeys (newTaskGraph H cfg (requestedTasks name options)) = []
            \<longrightarrow> exitCode (run L H d cwd name options) \<noteq> 0)
    \<and> (sortedTaskKeys (newTaskGraph H cfg (requestedTasks name options)) \<noteq> []
        \<and> runAllTasks H (newTaskGraph H cfg (requestedTasks name options)) d = Return (tg', d')
        \<and> (\<forall>k\<in>set (sortedTaskKeys tg'). \<exists>t. allTasks tg' k = Some t
               \<and> (status t = SuccessEager \<or> status t = SuccessLazy))
            \<longrightarrow> exitCode (run L H d cwd name options) = 0)
    \<and> (sortedTaskKeys (newTaskGraph H cfg (requestedTasks name options)) \<noteq> []
        \<and> runAllTasks H (newTaskGraph H cfg (requestedTasks name options)) d = Return (tg', d')
        \<and> (\<exists>k\<in>set (sortedTaskKeys tg'). \<exists>t. allTasks tg' k = Some t \<and> status t = Failure)
            \<longrightarrow> exitCode (run L H d cwd name options) \<noteq> 0)"
proof (intro conjI impI)
  assume "sortedTaskKeys (newTaskGraph H cfg (requestedTasks name options)) = []"
  then show "exitCode (run L H d cwd name options) \<noteq> 0"
    by (simp add: run_def cfg fail failAndExit_def exitCode_def Let_def)
next
  assume a: "sortedTaskKeys (newTaskGraph H cfg (requestedTasks name options)) \<noteq> []
        \<and> runAllTasks H (newTaskGraph H cfg (requestedTasks name options)) d = Return (tg', d')
        \<and> (\<forall>k\<in>set (sortedTaskKeys tg'). \<exists>t. allTasks tg' k = Some t
               \<and> (status t = SuccessEager \<or> status t = SuccessLazy))"
  then have "allFailedTasks tg' = []"
    by (auto simp: allFailedTasks_def filter_empty_conv)
  with a show "exitCode (run L H d cwd name options) = 0"
    by (simp add: run_def cfg exitCode_def Let_def)
next
  assume a: "sortedTaskKeys (newTaskGraph H cfg (requestedTasks name options)) \<noteq> []
        \<and> runAllTasks H (newTaskGraph H cfg (requestedTasks name options)) d = Return (tg', d')
        \<and> (\<exists>k\<in>set (sortedTaskKeys tg'). \<exists>t. allTasks tg' k = Some t \<and> status t = Failure)"
  then obtain k t where "k \<in> set (sortedTaskKeys tg')" "allTasks tg' k = Some t" "status t = Failure"
    by blast
  then have "k \<in> set (allFailedTasks tg')"
    by (simp add: allFailedTasks_def)
  then have "allFailedTasks tg' \<noteq> []"
    by auto
  with a show "exitCode (run L H d cwd name options) \<noteq> 0"
    by (simp add: run_def cfg fail failAndExit_def exitCode_def Let_def)
qed

theorem run_exit_code_witness:
  "exitCode (run exLib (exHost (\<lambda>cfg. exGraph cfg []) (exEndsAs Failure)) exDisk ''/repo'' ''build'' exOptions) \<noteq> 0
   \<and> exitCode (run exLib (exHost exOneTask (exEndsAs SuccessLazy)) exDisk ''/repo'' ''build'' exOptions) = 0
   \<and> exitCode (run exLib (exHost exOneTask (exEndsAs SuccessEager)) exDisk ''/repo'' ''build'' exOptions) = 0
   \<and> exitCode (run exLib (exHost exOneTask (exEndsAs Failure)) exDisk ''/repo'' ''build'' exOptions) \<noteq> 0"
proof -
  have f: "logger_fail (exHost g ra) = failAndExit" for g ra
    by (simp add: exHost_def)
  note t = run_exit_code[OF exHost_Config_from f, where name = "''build''" and options = exOptions]
  have none: "sortedTaskKeys (newTaskGraph (exHost (\<lambda>cfg. exGraph cfg []) (exEndsAs Failure)) exLoaded
      (requestedTasks ''build'' exOptions)) = []"
    by (simp add: exHost_def exGraph_def)
  have ok: "sortedTaskKeys (newTaskGraph (exHost exOneTask (exEndsAs st)) exLoaded
        (requestedTasks ''build'' exOptions)) \<noteq> []
      \<and> runAllTasks (exHost exOneTask (exEndsAs st))
          (newTaskGraph (exHost exOneTask (exEndsAs st)) exLoaded (requestedTasks ''build'' exOptions)) exDisk
          = Return (exEndsAs st (exOneTask exLoaded), exDisk)" for st
    by (simp add: exHost_def exOneTask_def exGraph_def)
  have st: "\<forall>k\<in>set (sortedTaskKeys (exEndsAs st (exOneTask exLoaded))).
      \<exists>t. allTasks (exEndsAs st (exOneTask exLoaded)) k = Some t \<and> status t = st" for st
    by (simp add: exEndsAs_def exOneTask_def exGraph_def)
  from st[of SuccessLazy] have lazy: "\<forall>k\<in>set (sortedTaskKeys (exEndsAs SuccessLazy (exOneTask exLoaded))).
      \<exists>t. allTasks (exEndsAs SuccessLazy (exOneTask exLoaded)) k = Some t
         \<and> (status t = SuccessEager \<or> status t = SuccessLazy)"
    by blast
  from st[of SuccessEager] have eager: "\<forall>k\<in>set (sortedTaskKeys (exEndsAs SuccessEager (exOneTask exLoaded))).
      \<exists>t. allTasks (exEndsAs SuccessEager (exOneTask exLoaded)) k = Some t
         \<and> (status t = SuccessEager \<or> status t = SuccessLazy)"
    by blast
  from st[of Failure] have failed: "\<exists>k\<in>set (sortedTaskKeys (exEndsAs Failure (exOneTask exLoaded))).
      \<exists>t. allTasks (exEndsAs Failure (exOneTask exLoaded)) k = Some t \<and> status t = Failure"
    by (simp add: exEndsAs_def exOneTask_def exGraph_def)
  from t[THEN conjunct1, rule_format, OF none]
    t[THEN conjunct2, THEN conjunct1, rule_format, OF conjI[OF ok[THEN conjunct1] conjI[OF ok[THEN conjunct2] lazy]]]
    t[THEN conjunct2, THEN conjunct1, rule_format, OF conjI[OF ok[THEN conjunct1] conjI[OF ok[THEN conjunct2] eager]]]
    t[THEN conjunct2, THEN conjunct2, rule_format, OF conjI[OF ok[THEN conjunct1] conjI[OF ok[THEN conjunct2] failed]]]
  show ?thesis
    by blast
qed


end
